theory Spec2Isabelle
  imports Complex_Main "HOL-Library.Sublist"
begin

section \<open>Data model of \<^verbatim>\<open>asus_touchpad.py\<close>\<close>

text \<open>
  The driver is one Python module whose state lives in module-level globals.  The
  embedding passes that state explicitly: the layout constants read at start-up are the
  record \<open>config\<close>, the mutable globals are the record \<open>state\<close>, and what the outside
  world answers during the handling of one event (the clock, the keyboard LED, the
  grab, the shell, \<^verbatim>\<open>xinput\<close>) is the record \<open>env\<close>.  The quotients that select the
  grid cell are computed as the program computes them, in double precision; the clock
  and the slide ratios, which are only compared, are read as reals.
\<close>

text \<open>
  The exceptions that can leave a function of the module: a division by a zero cell
  width or height (the numpy quotient is infinite or undefined and \<^verbatim>\<open>math.floor\<close>
  raises on it), \<^verbatim>\<open>TypeError\<close> and \<^verbatim>\<open>IndexError\<close>.
\<close>

datatype error = DivisionByZero | TypeError | IndexError

text \<open>
  An entry of the layout grid \<^verbatim>\<open>keys\<close> is \<^verbatim>\<open>None\<close>, a libevdev event code (known by its
  name) or a Python string that is typed through the Unicode compose sequence; a string
  is the list of its code points.
\<close>

datatype key = EventCode string | Str "nat list"

abbreviation KEY_NUMLOCK :: key where "KEY_NUMLOCK \<equiv> EventCode ''KEY_NUMLOCK''"
abbreviation KEY_CALC :: key where "KEY_CALC \<equiv> EventCode ''KEY_CALC''"

text \<open>Events written to the virtual keyboard: \<^verbatim>\<open>InputEvent(code, value)\<close>.\<close>

datatype event_code = EV_KEY string | MSC_SCAN | SYN_REPORT

datatype input_event = InputEvent event_code int

text \<open>Events read from the touchpad, as far as \<^verbatim>\<open>listen_touchpad_events\<close> tells them apart.\<close>

datatype tool = FINGER | DOUBLETAP | TRIPLETAP | QUADTAP | QUINTTAP

datatype event =
    ABS_MT_SLOT nat
  | ABS_MT_POSITION_X int
  | ABS_MT_POSITION_Y int
  | ABS_MT_TRACKING_ID int
  | BTN_TOOL tool int
  | MSC_TIMESTAMP int
  | BTN_LEFT int
  | BTN_RIGHT int
  | BTN_MIDDLE int
  | OTHER_EVENT

text \<open>
  The layout constants.  \<open>ecodes\<close> is the table of key numbers of the evdev library
  (\<^verbatim>\<open>getattr(ecodess, name)\<close>, and \<^verbatim>\<open>code.value\<close> of libevdev, which is the same
  number); the library is not part of the repository, so the table is a parameter.
\<close>

record geometry =
  keys :: "key option list list"
  minx :: int
  maxx :: int
  miny :: int
  maxy :: int
  left_offset :: int
  right_offset :: int
  top_offset :: int
  bottom_offset :: int

record icons =
  top_right_icon_is_on_top_left :: bool
  top_right_icon_width :: int
  top_right_icon_height :: int
  top_right_icon_activation_time :: real
  top_right_icon_slide_func_activation_x_ratio :: real
  top_right_icon_slide_func_activation_y_ratio :: real
  top_left_icon_width :: int
  top_left_icon_height :: int
  top_left_icon_activation_time :: real
  top_left_icon_brightness_func_disabled :: bool
  top_left_icon_slide_func_activate_numpad :: bool
  top_left_icon_slide_func_deactivate_numpad :: bool
  top_left_icon_slide_func_activation_x_ratio :: real
  top_left_icon_slide_func_activation_y_ratio :: real
  top_left_icon_slide_func_keys :: "input_event list"

record config =
  geom :: geometry
  icon :: icons
  touchpad_physical_buttons_are_inside_numpad :: bool
  disable_due_inactivity_time :: real
  touchpad_disables_numpad :: bool
  key_repetitions :: bool
  multitouch :: bool
  one_touch_key_rotation :: bool
  sys_numlock_enables_numpad :: bool
  backlight_levels :: "string list"
  default_backlight_level :: string
  device_id :: string
  ecodes :: "string \<Rightarrow> int"

text \<open>
  What the environment answers while one event or one poll is handled: \<^verbatim>\<open>time()\<close>,
  \<^verbatim>\<open>get_system_numlock()\<close> (\<open>None\<close> without a keyboard device), whether
  \<^verbatim>\<open>grab\<close>/\<^verbatim>\<open>ungrab\<close> and \<^verbatim>\<open>subprocess.call\<close> return rather than raise, and the lines
  printed by \<^verbatim>\<open>xinput --list-props\<close> (\<open>None\<close> when \<^verbatim>\<open>check_output\<close> raises).
\<close>

record env =
  now :: real
  sys_numlock :: "bool option"
  grab_ok :: bool
  bus_ok :: bool
  xinput_output :: "string list option"

text \<open>
  The globals.  \<open>udev_events\<close> collects what is handed to \<^verbatim>\<open>udev.send_events\<close>,
  \<open>bus_commands\<close> the command lines handed to \<^verbatim>\<open>subprocess.call\<close>, and
  \<open>config_writes\<close> the levels stored under \<^verbatim>\<open>last_brightness\<close>; the write of the
  configuration file is taken to succeed.
\<close>

record state =
  numlock :: bool
  brightness :: int
  abs_mt_slot_value :: nat
  abs_mt_slot :: "int list"
  abs_mt_slot_numpad_key :: "key option list"
  abs_mt_slot_x_values :: "int list"
  abs_mt_slot_y_values :: "int list"
  unsupported_abs_mt_slot :: bool
  top_right_icon_touch_start_time :: real
  top_left_icon_touch_start_time :: real
  last_event_time :: real
  getting_device_status_failure_count :: int
  grabbed :: bool
  udev_events :: "input_event list"
  bus_commands :: "string list"
  config_writes :: "string list"

definition initial_state :: state where
  "initial_state =
     \<lparr> numlock = False, brightness = 0, abs_mt_slot_value = 0,
       abs_mt_slot = [-1, -1, -1, -1, -1],
       abs_mt_slot_numpad_key = [None, None, None, None, None],
       abs_mt_slot_x_values = [-1, -1, -1, -1, -1],
       abs_mt_slot_y_values = [-1, -1, -1, -1, -1],
       unsupported_abs_mt_slot = False,
       top_right_icon_touch_start_time = 0, top_left_icon_touch_start_time = 0,
       last_event_time = 0, getting_device_status_failure_count = 0,
       grabbed = False, udev_events = [], bus_commands = [], config_writes = [] \<rparr>"

definition support_for_maximum_abs_mt_slots :: "config \<Rightarrow> nat" where
  "support_for_maximum_abs_mt_slots c = (if multitouch c then 5 else 1)"

abbreviation cur_x :: "state \<Rightarrow> int" where
  "cur_x s \<equiv> abs_mt_slot_x_values s ! abs_mt_slot_value s"

abbreviation cur_y :: "state \<Rightarrow> int" where
  "cur_y s \<equiv> abs_mt_slot_y_values s ! abs_mt_slot_value s"

abbreviation cur_key :: "state \<Rightarrow> key option" where
  "cur_key s \<equiv> abs_mt_slot_numpad_key s ! abs_mt_slot_value s"

subsection \<open>Double precision\<close>

text \<open>
  A double is kept as an integer mantissa and a binary exponent, its value being the
  mantissa times two to the exponent.  The range of the exponent is not bounded: the
  quotients of touchpad coordinates, which are 32-bit integers, stay far inside the
  range of a double.
\<close>

datatype double = Double (mantissa: int) (exponent: int)


text \<open>The number of binary digits of a positive integer.\<close>

function bit_length :: "int \<Rightarrow> nat" where
  "bit_length n = (if n \<le> 0 then 0 else Suc (bit_length (n div 2)))"
  by pat_completeness auto
termination
  by (relation "measure nat") auto

declare bit_length.simps [simp del]

text \<open>The fraction \<open>p / q\<close> times two to the power \<open>k\<close>, as a pair of integers.\<close>

definition scaled :: "int \<Rightarrow> int \<Rightarrow> int \<Rightarrow> int \<times> int" where
  "scaled p q k = (if 0 \<le> k then (p * 2 ^ nat k, q) else (p, q * 2 ^ nat (- k)))"

text \<open>The integer nearest to \<open>num / den\<close>, a tie going to the even one.\<close>

definition round_half_even :: "int \<Rightarrow> int \<Rightarrow> int" where
  "round_half_even num den =
     (let z = num div den; r = num mod den
      in if 2 * r < den then z
         else if 2 * r > den then z + 1
         else if even z then z else z + 1)"

text \<open>
  The binary exponent \<open>e\<close> of a positive quotient: two to the \<open>e\<close> is at most \<open>p / q\<close>,
  which is less than two to the \<open>e + 1\<close>.
\<close>

definition quotient_exponent :: "int \<Rightarrow> int \<Rightarrow> int" where
  "quotient_exponent p q =
     (let d = int (bit_length p) - int (bit_length q);
          (a, b) = scaled p q (- d)
      in if b \<le> a then d else d - 1)"

text \<open>
  The double nearest to \<open>p / q\<close>, with its 53 binary digits, ties to even: the rounding
  of IEEE 754 division, which Python's \<^verbatim>\<open>/\<close> on two integers and numpy's \<^verbatim>\<open>/\<close> on
  doubles both perform.
\<close>

definition round_pos :: "int \<Rightarrow> int \<Rightarrow> double" where
  "round_pos p q =
     (let e = quotient_exponent p q;
          (num, den) = scaled p q (52 - e)
      in Double (round_half_even num den) (e - 52))"

text \<open>The rounded quotient of two integers of either sign.\<close>

definition round_quotient :: "int \<Rightarrow> int \<Rightarrow> double" where
  "round_quotient p q =
     (if p = 0 \<or> q = 0 then Double 0 0
      else case round_pos \<bar>p\<bar> \<bar>q\<bar> of Double m e \<Rightarrow> Double (sgn p * sgn q * m) e)"

text \<open>The conversion of the numpy integer to a double, before it is divided.\<close>

definition int_to_double :: "int \<Rightarrow> double" where
  "int_to_double a = round_quotient a 1"

text \<open>The quotient of two doubles, rounded once.\<close>

definition fdiv :: "double \<Rightarrow> double \<Rightarrow> double" where
  "fdiv a b =
     (let (p, q) = scaled (mantissa a) (mantissa b) (exponent a - exponent b)
      in round_quotient p q)"

text \<open>\<^verbatim>\<open>math.floor\<close> of a double.\<close>

definition floor_double :: "double \<Rightarrow> int" where
  "floor_double d =
     (if 0 \<le> exponent d then mantissa d * 2 ^ nat (exponent d)
      else mantissa d div 2 ^ nat (- exponent d))"

text \<open>\<^verbatim>\<open>math.floor(a / d)\<close> for the numpy integer \<open>a\<close> and the double \<open>d\<close>.\<close>

definition cell_index :: "int \<Rightarrow> double \<Rightarrow> int" where
  "cell_index a d = floor_double (fdiv (int_to_double a) d)"

subsection \<open>Derived geometry (module level, lines 193 to 210)\<close>

definition minx_numpad :: "config \<Rightarrow> int" where
  "minx_numpad c = minx (geom c) + left_offset (geom c)"

definition maxx_numpad :: "config \<Rightarrow> int" where
  "maxx_numpad c = maxx (geom c) - right_offset (geom c)"

definition miny_numpad :: "config \<Rightarrow> int" where
  "miny_numpad c = miny (geom c) + top_offset (geom c)"

definition maxy_numpad :: "config \<Rightarrow> int" where
  "maxy_numpad c = maxy (geom c) - bottom_offset (geom c)"

text \<open>\<^verbatim>\<open>len(max(keys, key=len))\<close>: the length of a longest row.\<close>

definition col_count :: "config \<Rightarrow> nat" where
  "col_count c = foldr max (map length (keys (geom c))) 0"

definition row_count :: "config \<Rightarrow> nat" where
  "row_count c = length (keys (geom c))"

text \<open>
  The two quotients of integers, rounded to doubles.  The start-up checks leave at least
  one row and one column, so the divisor is not 0.
\<close>

definition col_width :: "config \<Rightarrow> double" where
  "col_width c = round_quotient (maxx_numpad c - minx_numpad c) (int (col_count c))"

definition row_height :: "config \<Rightarrow> double" where
  "row_height c = round_quotient (maxy_numpad c - miny_numpad c) (int (row_count c))"

subsection \<open>Geometry mapper\<close>

text \<open>
  \<^verbatim>\<open>get_touched_key\<close> (lines 531 to 543), with the position of the current slot passed
  in.  Only \<^verbatim>\<open>IndexError\<close> is caught, so a zero divisor raises; the negative indices
  that Python would count from the end are excluded by the explicit test.
\<close>

definition get_touched_key :: "config \<Rightarrow> int \<Rightarrow> int \<Rightarrow> error + key option" where
  "get_touched_key c x y =
     (if mantissa (col_width c) = 0 then Inl DivisionByZero
      else if mantissa (row_height c) = 0 then Inl DivisionByZero
      else
        let col = cell_index (x - minx_numpad c) (col_width c);
            row = cell_index (y - miny_numpad c) (row_height c)
        in if row < 0 \<or> col < 0 then Inr None
           else if nat row < length (keys (geom c))
                 \<and> nat col < length (keys (geom c) ! nat row)
           then Inr (keys (geom c) ! nat row ! nat col)
           else Inr None)"

text \<open>The two icon rectangles (lines 286 to 312).\<close>

definition is_pressed_touchpad_top_right_icon :: "config \<Rightarrow> state \<Rightarrow> bool" where
  "is_pressed_touchpad_top_right_icon c s =
     (if \<not> top_right_icon_is_on_top_left (icon c)
      then cur_x s \<ge> maxx (geom c) - top_right_icon_width (icon c)
           \<and> cur_y s \<le> top_right_icon_height (icon c)
      else cur_x s \<le> top_right_icon_width (icon c)
           \<and> cur_y s \<le> top_right_icon_height (icon c))"

definition is_pressed_touchpad_top_left_icon :: "config \<Rightarrow> state \<Rightarrow> bool" where
  "is_pressed_touchpad_top_left_icon c s =
     (if \<not> top_left_icon_width (icon c) > 0 \<or> \<not> top_left_icon_height (icon c) > 0
      then False
      else cur_x s \<le> top_left_icon_width (icon c)
           \<and> cur_y s \<le> top_left_icon_height (icon c))"

subsection \<open>Slot table helpers\<close>

definition set_none_to_current_mt_slot :: "state \<Rightarrow> state" where
  "set_none_to_current_mt_slot s =
     s\<lparr> abs_mt_slot_numpad_key := (abs_mt_slot_numpad_key s)[abs_mt_slot_value s := None],
        abs_mt_slot_x_values := (abs_mt_slot_x_values s)[abs_mt_slot_value s := 0],
        abs_mt_slot_y_values := (abs_mt_slot_y_values s)[abs_mt_slot_value s := 0] \<rparr>"

definition set_tracking_id :: "int \<Rightarrow> state \<Rightarrow> state" where
  "set_tracking_id v s = s\<lparr> abs_mt_slot := (abs_mt_slot s)[abs_mt_slot_value s := v] \<rparr>"

subsection \<open>Key emission engine\<close>

text \<open>
  \<^verbatim>\<open>udev.send_events\<close>: an \<^verbatim>\<open>OSError\<close> is caught and logged at every call site, so the
  model records the events handed over.
\<close>

definition send_events :: "input_event list \<Rightarrow> state \<Rightarrow> state" where
  "send_events evs s = s\<lparr> udev_events := udev_events s @ evs \<rparr>"

text \<open>
  \<^verbatim>\<open>isEvent\<close> (lines 239 to 244): the value has a name and the evdev table gives a
  number for it that Python reads as true, that is, a number other than 0.
\<close>

fun isEvent :: "config \<Rightarrow> key option \<Rightarrow> bool" where
  "isEvent c (Some (EventCode n)) = (ecodes c n \<noteq> 0)"
| "isEvent c _ = False"

text \<open>\<^verbatim>\<open>'%X' % n\<close>: the upper-case hexadecimal digits of \<open>n\<close>.\<close>

definition hex_char :: "nat \<Rightarrow> char" where
  "hex_char d = ''0123456789ABCDEF'' ! d"

fun hex_digits :: "nat \<Rightarrow> string" where
  "hex_digits n = (if n < 16 then [hex_char n] else hex_digits (n div 16) @ [hex_char (n mod 16)])"

definition get_compose_key_events_for_unicode_string :: "config \<Rightarrow> int \<Rightarrow> input_event list" where
  "get_compose_key_events_for_unicode_string c v =
     [ InputEvent MSC_SCAN (ecodes c ''KEY_LEFTCTRL''),
       InputEvent (EV_KEY ''KEY_LEFTCTRL'') v,
       InputEvent SYN_REPORT 0,
       InputEvent MSC_SCAN (ecodes c ''KEY_LEFTSHIFT''),
       InputEvent (EV_KEY ''KEY_LEFTSHIFT'') v,
       InputEvent SYN_REPORT 0,
       InputEvent MSC_SCAN (ecodes c ''KEY_U''),
       InputEvent (EV_KEY ''KEY_U'') v,
       InputEvent SYN_REPORT 0 ]"

text \<open>The body of the inner loop of \<^verbatim>\<open>get_events_for_unicode_string\<close>, for one hex digit.\<close>

definition hex_digit_events :: "config \<Rightarrow> char \<Rightarrow> input_event list" where
  "hex_digit_events c d =
     (let name = ''KEY_'' @ [d] in
      [ InputEvent MSC_SCAN (ecodes c name),
        InputEvent (EV_KEY name) 1,
        InputEvent SYN_REPORT 0,
        InputEvent MSC_SCAN (ecodes c name),
        InputEvent (EV_KEY name) 0,
        InputEvent SYN_REPORT 0 ])"

definition compose_sequence :: "config \<Rightarrow> nat \<Rightarrow> input_event list" where
  "compose_sequence c ch =
     get_compose_key_events_for_unicode_string c 1
     @ concat (map (hex_digit_events c) (hex_digits ch))
     @ get_compose_key_events_for_unicode_string c 0"

text \<open>
  \<^verbatim>\<open>get_events_for_unicode_string\<close> (lines 451 to 475).  The \<^verbatim>\<open>return\<close> stands inside the
  loop over the characters, so the first iteration returns; on the empty string the
  loop body never runs and the function returns \<^verbatim>\<open>None\<close>.
\<close>

fun get_events_for_unicode_string :: "config \<Rightarrow> nat list \<Rightarrow> input_event list option" where
  "get_events_for_unicode_string c [] = None"
| "get_events_for_unicode_string c (ch # rest) = Some (compose_sequence c ch)"

text \<open>
  \<^verbatim>\<open>pressed_numpad_key\<close> (lines 478 to 497).  Whatever is not an event is iterated as a
  string: \<^verbatim>\<open>None\<close> and an event code whose number is 0 raise \<^verbatim>\<open>TypeError\<close> there, and so
  does \<^verbatim>\<open>send_events(None)\<close> for the empty string.
\<close>

definition pressed_numpad_key :: "config \<Rightarrow> state \<Rightarrow> error + state" where
  "pressed_numpad_key c s =
     (if \<not> isEvent c (cur_key s) then
        (case cur_key s of
           Some (Str unicode_string) \<Rightarrow>
             (case get_events_for_unicode_string c unicode_string of
                None \<Rightarrow> Inl TypeError
              | Some events \<Rightarrow> Inr (send_events events s))
         | _ \<Rightarrow> Inl TypeError)
      else
        (case cur_key s of
           Some (EventCode n) \<Rightarrow>
             Inr (send_events [InputEvent (EV_KEY n) 1, InputEvent SYN_REPORT 0] s)
         | _ \<Rightarrow> Inl TypeError))"

text \<open>Python's truth value of the argument \<^verbatim>\<open>replaced_by_key\<close>: \<^verbatim>\<open>None\<close> and \<^verbatim>\<open>""\<close> are false.\<close>

fun truthy :: "key option \<Rightarrow> bool" where
  "truthy None = False"
| "truthy (Some (Str [])) = False"
| "truthy (Some _) = True"

definition unpressed_numpad_key :: "config \<Rightarrow> key option \<Rightarrow> state \<Rightarrow> state" where
  "unpressed_numpad_key c replaced_by_key s =
     (let s1 = (case cur_key s of
                  Some (EventCode n) \<Rightarrow>
                    if isEvent c (cur_key s)
                    then send_events [InputEvent (EV_KEY n) 0, InputEvent SYN_REPORT 0] s
                    else s
                | _ \<Rightarrow> s)
      in if truthy replaced_by_key
         then s1\<lparr> abs_mt_slot_numpad_key :=
                    (abs_mt_slot_numpad_key s1)[abs_mt_slot_value s1 := replaced_by_key] \<rparr>
         else set_none_to_current_mt_slot s1)"

definition replaced_numpad_key :: "config \<Rightarrow> key \<Rightarrow> state \<Rightarrow> error + state" where
  "replaced_numpad_key c touched_key_now s =
     pressed_numpad_key c (unpressed_numpad_key c (Some touched_key_now) s)"

text \<open>
  \<^verbatim>\<open>is_not_finger_moved_to_another_key\<close> (lines 546 to 571).  The key of the slot is not
  \<^verbatim>\<open>None\<close> past the first test, which leaves the last \<^verbatim>\<open>elif\<close> of the source without a
  case.
\<close>

definition is_not_finger_moved_to_another_key :: "config \<Rightarrow> state \<Rightarrow> error + state" where
  "is_not_finger_moved_to_another_key c s =
     (case cur_key s of
        None \<Rightarrow> Inr s
      | Some touched_key_when_pressed \<Rightarrow>
          if touched_key_when_pressed = KEY_CALC then Inr s
          else if touched_key_when_pressed = KEY_NUMLOCK then Inr s
          else if numlock s then
            (case get_touched_key c (cur_x s) (cur_y s) of
               Inl e \<Rightarrow> Inl e
             | Inr touched_key_now \<Rightarrow>
                 if touched_key_now \<noteq> Some touched_key_when_pressed then
                   (case touched_key_now of
                      Some k \<Rightarrow>
                        if one_touch_key_rotation c then replaced_numpad_key c k s
                        else Inr (unpressed_numpad_key c None s)
                    | None \<Rightarrow> Inr (unpressed_numpad_key c None s))
                 else Inr s)
          else Inr s)"

subsection \<open>Activation state machine\<close>

text \<open>The command line of the three bus commands, which differ in the level byte only.\<close>

definition numpad_cmd :: "config \<Rightarrow> string \<Rightarrow> string" where
  "numpad_cmd c level =
     ''i2ctransfer -f -y '' @ device_id c
     @ '' w13@0x15 0x05 0x00 0x3d 0x03 0x06 0x00 0x07 0x00 0x0d 0x14 0x03 ''
     @ level @ '' 0xad''"

definition power_on_cmd :: "config \<Rightarrow> string" where
  "power_on_cmd c = numpad_cmd c ''0x01''"

definition power_off_cmd :: "config \<Rightarrow> string" where
  "power_off_cmd c = numpad_cmd c ''0x00''"

definition call :: "string \<Rightarrow> state \<Rightarrow> state" where
  "call cmd s = s\<lparr> bus_commands := bus_commands s @ [cmd] \<rparr>"

text \<open>\<^verbatim>\<open>list.index\<close>: the first position of a value, \<open>None\<close> for \<^verbatim>\<open>ValueError\<close>.\<close>

fun index_of :: "'a list \<Rightarrow> 'a \<Rightarrow> nat option" where
  "index_of [] v = None"
| "index_of (x # xs) v = (if x = v then Some 0 else map_option Suc (index_of xs v))"

text \<open>
  \<^verbatim>\<open>activate_numpad\<close> (lines 359 to 380): everything happens inside one \<^verbatim>\<open>try\<close>, so a
  grab that raises skips the bus commands and a bus call that raises skips what follows
  it (\<open>bus_ok\<close> false: the first call of the handling raises).
\<close>

definition activate_numpad :: "config \<Rightarrow> env \<Rightarrow> state \<Rightarrow> state" where
  "activate_numpad c e s =
     (if \<not> grab_ok e then s
      else
        let s1 = call (power_on_cmd c) (s\<lparr> grabbed := True \<rparr>) in
        if \<not> bus_ok e then s1
        else
          let s2 = (if default_backlight_level c \<noteq> ''0x01''
                    then call (numpad_cmd c (default_backlight_level c)) s1 else s1)
          in s2\<lparr> brightness :=
                    (case index_of (backlight_levels c) (default_backlight_level c) of
                       Some i \<Rightarrow> int i
                     | None \<Rightarrow> - 1) \<rparr>)"

text \<open>\<^verbatim>\<open>deactivate_numpad\<close> (lines 383 to 394).\<close>

definition deactivate_numpad :: "config \<Rightarrow> env \<Rightarrow> state \<Rightarrow> state" where
  "deactivate_numpad c e s =
     (if \<not> grab_ok e then s
      else
        let s1 = call (power_off_cmd c) (s\<lparr> grabbed := False \<rparr>) in
        if \<not> bus_ok e then s1
        else s1\<lparr> brightness := 0 \<rparr>)"

text \<open>Python list indexing, where a negative index counts from the end.\<close>

definition py_index :: "'a list \<Rightarrow> int \<Rightarrow> error + 'a" where
  "py_index xs i =
     (if 0 \<le> i \<and> i < int (length xs) then Inr (xs ! nat i)
      else if i < 0 \<and> - int (length xs) \<le> i then Inr (xs ! nat (int (length xs) + i))
      else Inl IndexError)"

text \<open>
  \<^verbatim>\<open>increase_brightness\<close> (lines 335 to 356): the new level is stored, then sent; a bus
  call that raises is swallowed, so its outcome changes nothing.
\<close>

definition increase_brightness :: "config \<Rightarrow> state \<Rightarrow> error + state" where
  "increase_brightness c s =
     (let b = (if brightness s + 1 \<ge> int (length (backlight_levels c)) then 0
               else brightness s + 1)
      in case py_index (backlight_levels c) b of
           Inl err \<Rightarrow> Inl err
         | Inr level \<Rightarrow>
             Inr (call (numpad_cmd c level)
                    (s\<lparr> brightness := b, config_writes := config_writes s @ [level] \<rparr>)))"

definition send_numlock_key :: "int \<Rightarrow> state \<Rightarrow> state" where
  "send_numlock_key v s =
     send_events [ InputEvent MSC_SCAN 70053,
                   InputEvent (EV_KEY ''KEY_NUMLOCK'') v,
                   InputEvent SYN_REPORT 0 ] s"

text \<open>
  \<^verbatim>\<open>local_numlock_pressed\<close> (lines 593 to 628), the toggle.  \<^verbatim>\<open>not sys_numlock\<close> is true
  for \<^verbatim>\<open>None\<close> as well.
\<close>

definition local_numlock_pressed :: "config \<Rightarrow> env \<Rightarrow> state \<Rightarrow> state" where
  "local_numlock_pressed c e s =
     set_none_to_current_mt_slot
       (if \<not> numlock s then
          let s1 = s\<lparr> numlock := True \<rparr>;
              s2 = (if sys_numlock e \<noteq> Some True
                    then send_numlock_key 0 (send_numlock_key 1 s1) else s1)
          in activate_numpad c e s2
        else
          let s1 = s\<lparr> numlock := False \<rparr>;
              s2 = (if sys_numlock e = Some True
                    then send_numlock_key 0 (send_numlock_key 1 s1) else s1)
          in deactivate_numpad c e s2)"

text \<open>\<^verbatim>\<open>check_system_numlock_vs_local\<close> (lines 574 to 590), one poll of the LED monitor.\<close>

definition check_system_numlock_vs_local :: "config \<Rightarrow> env \<Rightarrow> state \<Rightarrow> state" where
  "check_system_numlock_vs_local c e s =
     (if sys_numlock e \<noteq> Some True \<and> numlock s
      then deactivate_numpad c e (s\<lparr> numlock := False \<rparr>)
      else if sys_numlock e = Some True \<and> sys_numlock_enables_numpad c \<and> \<not> numlock s
      then activate_numpad c e (s\<lparr> numlock := True \<rparr>)
      else s)"

text \<open>
  \<^verbatim>\<open>is_device_enabled\<close> (lines 918 to 940).  The counter is set to 0 on entry; the bare
  \<^verbatim>\<open>except\<close> answers \<^verbatim>\<open>True\<close>.
\<close>

definition py_isspace :: "char \<Rightarrow> bool" where
  "py_isspace ch = (ch \<in> set [CHR '' '', CHR 0x09, CHR 0x0A, CHR 0x0B, CHR 0x0C, CHR 0x0D])"

definition strip :: "string \<Rightarrow> string" where
  "strip l = rev (dropWhile py_isspace (rev (dropWhile py_isspace l)))"

definition is_device_enabled :: "env \<Rightarrow> state \<Rightarrow> bool \<times> state" where
  "is_device_enabled e s =
     (let s0 = s\<lparr> getting_device_status_failure_count := 0 \<rparr>;
          failed = s0\<lparr> getting_device_status_failure_count :=
                         getting_device_status_failure_count s0 + 1 \<rparr>
      in case xinput_output e of
           None \<Rightarrow> (True, failed)
         | Some propData \<Rightarrow>
             (case find (sublist ''Device Enabled'') propData of
                Some line \<Rightarrow> (last (strip line) = CHR ''1'', s0)
              | None \<Rightarrow> (False, failed)))"

text \<open>\<^verbatim>\<open>check_touchpad_status\<close> (lines 943 to 955), one poll of the touchpad monitor.\<close>

definition check_touchpad_status :: "config \<Rightarrow> env \<Rightarrow> state \<Rightarrow> state" where
  "check_touchpad_status c e s =
     (let (is_touchpad_enabled, s1) = is_device_enabled e s in
      if \<not> is_touchpad_enabled \<and> touchpad_disables_numpad c \<and> numlock s1
      then deactivate_numpad c e (s1\<lparr> numlock := False \<rparr>)
      else s1)"

text \<open>
  \<^verbatim>\<open>check_touchpad_status_endless_cycle\<close> (lines 964 to 967).  Each turn of the loop
  consumes the environment of one poll; the result says whether the loop condition
  became false (\<open>True\<close>: the loop has ended) or the polls given ran out with the loop
  still going (\<open>False\<close>).
\<close>

fun check_touchpad_status_endless_cycle :: "config \<Rightarrow> env list \<Rightarrow> state \<Rightarrow> bool \<times> state" where
  "check_touchpad_status_endless_cycle c [] s =
     (\<not> getting_device_status_failure_count s < 9, s)"
| "check_touchpad_status_endless_cycle c (e # es) s =
     (if getting_device_status_failure_count s < 9
      then check_touchpad_status_endless_cycle c es (check_touchpad_status c e s)
      else (True, s))"

text \<open>
  One turn of \<^verbatim>\<open>check_numpad_automatical_disable_due_inactivity\<close> (lines 970 to 991).
\<close>

definition check_numpad_automatical_disable_due_inactivity :: "config \<Rightarrow> env \<Rightarrow> state \<Rightarrow> state" where
  "check_numpad_automatical_disable_due_inactivity c e s =
     (if numlock s \<and> last_event_time s \<noteq> 0
         \<and> now e > disable_due_inactivity_time c + last_event_time s
      then
        let s1 = (if sys_numlock e = Some True
                  then send_numlock_key 0 (send_numlock_key 1 s) else s)
        in deactivate_numpad c e (s1\<lparr> numlock := False \<rparr>)
      else s)"

subsection \<open>Icon gesture detector\<close>

definition pressed_touchpad_top_left_icon :: "env \<Rightarrow> int \<Rightarrow> state \<Rightarrow> state" where
  "pressed_touchpad_top_left_icon e v s =
     (if v = 1
      then s\<lparr> top_left_icon_touch_start_time := now e,
              abs_mt_slot_numpad_key :=
                (abs_mt_slot_numpad_key s)[abs_mt_slot_value s := Some KEY_CALC] \<rparr>
      else set_none_to_current_mt_slot s)"

definition pressed_touchpad_top_right_icon :: "env \<Rightarrow> int \<Rightarrow> state \<Rightarrow> state" where
  "pressed_touchpad_top_right_icon e v s =
     (if v = 1
      then s\<lparr> top_right_icon_touch_start_time := now e,
              abs_mt_slot_numpad_key :=
                (abs_mt_slot_numpad_key s)[abs_mt_slot_value s := Some KEY_NUMLOCK] \<rparr>
      else s)"

text \<open>
  \<^verbatim>\<open>is_slided_from_top_right_icon\<close> (lines 654 to 681); the bare \<^verbatim>\<open>return\<close> counts as
  false where the result is tested.
\<close>

definition is_slided_from_top_right_icon :: "config \<Rightarrow> int \<Rightarrow> state \<Rightarrow> bool \<times> state" where
  "is_slided_from_top_right_icon c v s =
     (if v \<noteq> 0 then (False, s)
      else if top_right_icon_touch_start_time s = 0 then (False, s)
      else if cur_key s = Some KEY_NUMLOCK
            \<and> real_of_int (cur_x s) < real_of_int (maxx (geom c))
                 - top_right_icon_slide_func_activation_x_ratio (icon c) * real_of_int (maxx (geom c))
            \<and> real_of_int (cur_y s) < real_of_int (maxy (geom c))
                 - top_right_icon_slide_func_activation_y_ratio (icon c) * real_of_int (maxy (geom c))
      then (True, s\<lparr> top_right_icon_touch_start_time := 0 \<rparr>)
      else (False, s))"

text \<open>\<^verbatim>\<open>is_slided_from_top_left_icon\<close> (lines 684 to 715).\<close>

definition is_slided_from_top_left_icon :: "config \<Rightarrow> int \<Rightarrow> state \<Rightarrow> bool \<times> state" where
  "is_slided_from_top_left_icon c v s =
     (if v \<noteq> 0 then (False, s)
      else if top_left_icon_touch_start_time s = 0 then (False, s)
      else
        (cur_key s = Some KEY_CALC
           \<and> real_of_int (cur_x s)
                > top_left_icon_slide_func_activation_x_ratio (icon c) * real_of_int (maxx (geom c))
           \<and> real_of_int (cur_y s)
                > top_left_icon_slide_func_activation_y_ratio (icon c) * real_of_int (maxy (geom c)),
         set_none_to_current_mt_slot (s\<lparr> top_left_icon_touch_start_time := 0 \<rparr>)))"

text \<open>
  The two hold tests (lines 718 to 761); \<^verbatim>\<open>time()\<close> is the clock of the event being
  handled.
\<close>

definition takes_top_left_icon_touch_longer_then_set_up_activation_time ::
    "config \<Rightarrow> env \<Rightarrow> state \<Rightarrow> bool \<times> state" where
  "takes_top_left_icon_touch_longer_then_set_up_activation_time c e s =
     (if top_left_icon_touch_start_time s = 0 then (False, s)
      else
        let press_duration = now e - top_left_icon_touch_start_time s in
        if cur_key s = Some KEY_CALC \<and> press_duration > top_left_icon_activation_time (icon c)
        then (True, s\<lparr> top_left_icon_touch_start_time := now e \<rparr>)
        else (False, s))"

definition takes_top_right_icon_touch_longer_then_set_up_activation_time ::
    "config \<Rightarrow> env \<Rightarrow> state \<Rightarrow> bool \<times> state" where
  "takes_top_right_icon_touch_longer_then_set_up_activation_time c e s =
     (if top_right_icon_touch_start_time s = 0 then (False, s)
      else
        let press_duration = now e - top_right_icon_touch_start_time s in
        if cur_key s = Some KEY_NUMLOCK \<and> press_duration > top_right_icon_activation_time (icon c)
        then (True, s\<lparr> top_right_icon_touch_start_time := 0 \<rparr>)
        else (False, s))"

definition use_slide_func_for_top_right_icon :: "config \<Rightarrow> env \<Rightarrow> state \<Rightarrow> state" where
  "use_slide_func_for_top_right_icon c e s = local_numlock_pressed c e s"

definition use_bindings_for_touchpad_left_icon_slide_function ::
    "config \<Rightarrow> env \<Rightarrow> state \<Rightarrow> state" where
  "use_bindings_for_touchpad_left_icon_slide_function c e s =
     (let s1 = send_events (top_left_icon_slide_func_keys (icon c)) s in
      if top_left_icon_slide_func_activate_numpad (icon c) \<and> \<not> numlock s1
      then local_numlock_pressed c e s1
      else if top_left_icon_slide_func_deactivate_numpad (icon c) \<and> numlock s1
      then local_numlock_pressed c e s1
      else s1)"

subsection \<open>Event dispatcher\<close>

text \<open>
  The body of the loop of \<^verbatim>\<open>listen_touchpad_events\<close> (lines 780 to 912) is cut into the
  blocks of its \<^verbatim>\<open>if\<close> statements.  The first is the block for \<^verbatim>\<open>MSC_TIMESTAMP\<close>
  (lines 808 to 831); Python's \<^verbatim>\<open>and\<close> runs a hold test, with its effect on the timer,
  only when the tests to its left hold.
\<close>

definition timestamp_block :: "config \<Rightarrow> env \<Rightarrow> state \<Rightarrow> error + state" where
  "timestamp_block c e s =
     (let (fire_right, s1) =
            (if is_pressed_touchpad_top_right_icon c s
             then takes_top_right_icon_touch_longer_then_set_up_activation_time c e s
             else (False, s))
      in if fire_right then
           (let (is_touchpad_enabled, s2) = is_device_enabled e s1 in
            if (is_touchpad_enabled \<and> touchpad_disables_numpad c) \<or> \<not> touchpad_disables_numpad c
            then Inr (local_numlock_pressed c e s2)
            else Inr s2)
         else
           (let (fire_left, s2) =
                  (if numlock s1 \<and> is_pressed_touchpad_top_left_icon c s1
                   then takes_top_left_icon_touch_longer_then_set_up_activation_time c e s1
                   else (False, s1))
            in if fire_left \<and> length (backlight_levels c) > 0
                  \<and> \<not> top_left_icon_brightness_func_disabled (icon c)
               then increase_brightness c s2
               else Inr s2))"

text \<open>
  The grid part of the block for the contact events (lines 866 to 912), reached when no
  icon test consumed the event.
\<close>

definition grid_block :: "config \<Rightarrow> int \<Rightarrow> state \<Rightarrow> error + state" where
  "grid_block c v s =
     (if \<not> numlock s then Inr s
      else if cur_x s < minx_numpad c \<or> cur_x s > maxx_numpad c
            \<or> cur_y s < miny_numpad c \<or> cur_y s > maxy_numpad c then Inr s
      else if mantissa (col_width c) = 0 then Inl DivisionByZero
      else if mantissa (row_height c) = 0 then Inl DivisionByZero
      else
        let col = cell_index (cur_x s - minx_numpad c) (col_width c);
            row = cell_index (cur_y s - miny_numpad c) (row_height c)
        in if row < 0 \<or> col < 0 then Inr s
           else if cur_key s = None \<and> v = 0 then Inr s
           else if \<not> (nat row < length (keys (geom c))
                       \<and> nat col < length (keys (geom c) ! nat row)) then Inr s
           else
             (case keys (geom c) ! nat row ! nat col of
                None \<Rightarrow> Inr s
              | Some k \<Rightarrow>
                  let s1 = s\<lparr> abs_mt_slot_numpad_key :=
                                (abs_mt_slot_numpad_key s)[abs_mt_slot_value s := Some k] \<rparr>
                  in if v = 1 then
                       (if key_repetitions c then pressed_numpad_key c s1
                        else (case pressed_numpad_key c s1 of
                                Inl err \<Rightarrow> Inl err
                              | Inr s2 \<Rightarrow> Inr (unpressed_numpad_key c None s2)))
                     else Inr (unpressed_numpad_key c None s1)))"

text \<open>The block for the contact events (lines 844 to 912).\<close>

definition tool_block :: "config \<Rightarrow> env \<Rightarrow> int \<Rightarrow> state \<Rightarrow> error + state" where
  "tool_block c e v s =
     (if is_pressed_touchpad_top_right_icon c s
      then Inr (pressed_touchpad_top_right_icon e v s)
      else if is_pressed_touchpad_top_left_icon c s
      then Inr (pressed_touchpad_top_left_icon e v s)
      else
        let (slided_left, s1) = is_slided_from_top_left_icon c v s in
        if slided_left then Inr (use_bindings_for_touchpad_left_icon_slide_function c e s1)
        else
          let (slided_right, s2) = is_slided_from_top_right_icon c v s1 in
          if slided_right then Inr (use_slide_func_for_top_right_icon c e s2)
          else grid_block c v s2)"

fun is_pointer_button :: "event \<Rightarrow> bool" where
  "is_pointer_button (BTN_LEFT v) = True"
| "is_pointer_button (BTN_RIGHT v) = True"
| "is_pointer_button (BTN_MIDDLE v) = True"
| "is_pointer_button ev = False"

text \<open>The slot cursor (lines 798 to 803).\<close>

fun slot_block :: "config \<Rightarrow> event \<Rightarrow> state \<Rightarrow> state" where
  "slot_block c (ABS_MT_SLOT v) s =
     (if v < support_for_maximum_abs_mt_slots c
      then s\<lparr> abs_mt_slot_value := v, unsupported_abs_mt_slot := False \<rparr>
      else s\<lparr> unsupported_abs_mt_slot := True \<rparr>)"
| "slot_block c ev s = s"

text \<open>The blocks that follow the test of \<^verbatim>\<open>unsupported_abs_mt_slot\<close>, by kind of event.\<close>

fun event_block :: "config \<Rightarrow> env \<Rightarrow> event \<Rightarrow> state \<Rightarrow> error + state" where
  "event_block c e (MSC_TIMESTAMP v) s = timestamp_block c e s"
| "event_block c e (ABS_MT_POSITION_X v) s =
     is_not_finger_moved_to_another_key c
       (s\<lparr> abs_mt_slot_x_values := (abs_mt_slot_x_values s)[abs_mt_slot_value s := v] \<rparr>)"
| "event_block c e (ABS_MT_POSITION_Y v) s =
     is_not_finger_moved_to_another_key c
       (s\<lparr> abs_mt_slot_y_values := (abs_mt_slot_y_values s)[abs_mt_slot_value s := v] \<rparr>)"
| "event_block c e (ABS_MT_TRACKING_ID v) s = Inr (set_tracking_id v s)"
| "event_block c e (BTN_TOOL t v) s = tool_block c e v s"
| "event_block c e ev s = Inr s"

text \<open>One turn of the loop: the handling of one event read from the touchpad.\<close>

definition listen_touchpad_event :: "config \<Rightarrow> env \<Rightarrow> event \<Rightarrow> state \<Rightarrow> error + state" where
  "listen_touchpad_event c e ev s =
     (let s0 = s\<lparr> last_event_time := now e \<rparr> in
      if numlock s0 \<and> touchpad_physical_buttons_are_inside_numpad c \<and> is_pointer_button ev
      then Inr s0
      else
        let s1 = slot_block c ev s0 in
        if unsupported_abs_mt_slot s1 then Inr s1
        else event_block c e ev s1)"

text \<open>
  \<^verbatim>\<open>listen_touchpad_events\<close>: the loop over the events, each with the environment it is
  handled in; an exception ends the loop.
\<close>

fun listen_touchpad_events :: "config \<Rightarrow> (env \<times> event) list \<Rightarrow> state \<Rightarrow> error + state" where
  "listen_touchpad_events c [] s = Inr s"
| "listen_touchpad_events c ((e, ev) # rest) s =
     (case listen_touchpad_event c e ev s of
        Inl err \<Rightarrow> Inl err
      | Inr s' \<Rightarrow> listen_touchpad_events c rest s')"

section \<open>Vocabulary of the properties\<close>

text \<open>The arrays of the slot table have their five cells and the cursor points into them.\<close>

definition slots_ok :: "state \<Rightarrow> bool" where
  "slots_ok s =
     (abs_mt_slot_value s < 5
      \<and> length (abs_mt_slot_numpad_key s) = 5
      \<and> length (abs_mt_slot_x_values s) = 5
      \<and> length (abs_mt_slot_y_values s) = 5)"

text \<open>Inside the usable rectangle, borders included, as the dispatcher tests it.\<close>

definition in_numpad :: "config \<Rightarrow> int \<Rightarrow> int \<Rightarrow> bool" where
  "in_numpad c x y =
     (minx_numpad c \<le> x \<and> x \<le> maxx_numpad c \<and> miny_numpad c \<le> y \<and> y \<le> maxy_numpad c)"

text \<open>The icon tests as functions of a position.\<close>

definition in_top_right_icon :: "config \<Rightarrow> int \<Rightarrow> int \<Rightarrow> bool" where
  "in_top_right_icon c x y =
     (if \<not> top_right_icon_is_on_top_left (icon c)
      then x \<ge> maxx (geom c) - top_right_icon_width (icon c) \<and> y \<le> top_right_icon_height (icon c)
      else x \<le> top_right_icon_width (icon c) \<and> y \<le> top_right_icon_height (icon c))"

definition in_top_left_icon :: "config \<Rightarrow> int \<Rightarrow> int \<Rightarrow> bool" where
  "in_top_left_icon c x y =
     (top_left_icon_width (icon c) > 0 \<and> top_left_icon_height (icon c) > 0
      \<and> x \<le> top_left_icon_width (icon c) \<and> y \<le> top_left_icon_height (icon c))"

text \<open>
  The position lies on the grid key with event code \<open>n\<close>: inside the usable rectangle,
  in neither icon, and the mapper answers that code, which the evdev table knows.
\<close>

definition on_grid_key :: "config \<Rightarrow> int \<Rightarrow> int \<Rightarrow> string \<Rightarrow> bool" where
  "on_grid_key c x y n =
     (in_numpad c x y \<and> \<not> in_top_right_icon c x y \<and> \<not> in_top_left_icon c x y
      \<and> get_touched_key c x y = Inr (Some (EventCode n)) \<and> ecodes c n \<noteq> 0)"

abbreviation key_down :: "string \<Rightarrow> input_event" where
  "key_down n \<equiv> InputEvent (EV_KEY n) 1"

abbreviation key_up :: "string \<Rightarrow> input_event" where
  "key_up n \<equiv> InputEvent (EV_KEY n) 0"

abbreviation syn :: input_event where
  "syn \<equiv> InputEvent SYN_REPORT 0"

text \<open>Every key has as many presses as releases in a stream of written events.\<close>

definition balanced :: "input_event list \<Rightarrow> bool" where
  "balanced evs = (\<forall>n. count_list evs (key_down n) = count_list evs (key_up n))"

text \<open>The keys that are down after a stream of written events, given those down before.\<close>

fun keys_down :: "string set \<Rightarrow> input_event list \<Rightarrow> string set" where
  "keys_down d [] = d"
| "keys_down d (InputEvent (EV_KEY n) v # evs) =
     keys_down (if v = 0 then d - {n} else insert n d) evs"
| "keys_down d (ev # evs) = keys_down d evs"

subsection \<open>An example layout\<close>

text \<open>
  The entries of the Linux table of input event codes that the examples use, and a
  three by three layout on a touchpad whose axes run from 0 to 300, with the numlock
  icon in the top right corner.
\<close>

definition linux_ecodes :: "string \<Rightarrow> int" where
  "linux_ecodes n =
     (case map_of
        [ (''KEY_1'', 2), (''KEY_2'', 3), (''KEY_3'', 4), (''KEY_4'', 5), (''KEY_5'', 6),
          (''KEY_6'', 7), (''KEY_7'', 8), (''KEY_8'', 9), (''KEY_9'', 10), (''KEY_0'', 11),
          (''KEY_E'', 18), (''KEY_U'', 22), (''KEY_LEFTCTRL'', 29), (''KEY_A'', 30),
          (''KEY_D'', 32), (''KEY_F'', 33), (''KEY_LEFTSHIFT'', 42), (''KEY_C'', 46),
          (''KEY_B'', 48), (''KEY_NUMLOCK'', 69), (''KEY_KP7'', 71), (''KEY_KP8'', 72),
          (''KEY_KP9'', 73), (''KEY_KP4'', 75), (''KEY_KP5'', 76), (''KEY_KP6'', 77),
          (''KEY_KP1'', 79), (''KEY_KP2'', 80), (''KEY_KP3'', 81), (''KEY_CALC'', 140) ] n of
        Some v \<Rightarrow> v
      | None \<Rightarrow> 0)"

definition example_geometry :: geometry where
  "example_geometry =
     \<lparr> keys = [ [Some (EventCode ''KEY_KP7''), Some (EventCode ''KEY_KP8''), Some (EventCode ''KEY_KP9'')],
                [Some (EventCode ''KEY_KP4''), Some (EventCode ''KEY_KP5''), Some (EventCode ''KEY_KP6'')],
                [Some (EventCode ''KEY_KP1''), Some (EventCode ''KEY_KP2''), Some (EventCode ''KEY_KP3'')] ],
       minx = 0, maxx = 300, miny = 0, maxy = 300,
       left_offset = 0, right_offset = 0, top_offset = 0, bottom_offset = 0 \<rparr>"

definition example_icons :: icons where
  "example_icons =
     \<lparr> top_right_icon_is_on_top_left = False,
       top_right_icon_width = 20, top_right_icon_height = 20,
       top_right_icon_activation_time = 1,
       top_right_icon_slide_func_activation_x_ratio = 5 / 100,
       top_right_icon_slide_func_activation_y_ratio = 5 / 100,
       top_left_icon_width = 0, top_left_icon_height = 0,
       top_left_icon_activation_time = 1,
       top_left_icon_brightness_func_disabled = False,
       top_left_icon_slide_func_activate_numpad = True,
       top_left_icon_slide_func_deactivate_numpad = True,
       top_left_icon_slide_func_activation_x_ratio = 5 / 100,
       top_left_icon_slide_func_activation_y_ratio = 5 / 100,
       top_left_icon_slide_func_keys =
         [ InputEvent (EV_KEY ''KEY_CALC'') 1, InputEvent SYN_REPORT 0,
           InputEvent (EV_KEY ''KEY_CALC'') 0, InputEvent SYN_REPORT 0 ] \<rparr>"

definition example_layout :: config where
  "example_layout =
     \<lparr> geom = example_geometry, icon = example_icons,
       touchpad_physical_buttons_are_inside_numpad = True,
       disable_due_inactivity_time = 60,
       touchpad_disables_numpad = True,
       key_repetitions = False,
       multitouch = False,
       one_touch_key_rotation = False,
       sys_numlock_enables_numpad = False,
       backlight_levels = [''0x01'', ''0x02''],
       default_backlight_level = ''0x01'',
       device_id = ''1'',
       ecodes = linux_ecodes \<rparr>"

text \<open>An environment at clock \<open>t\<close> in which every collaborator answers.\<close>

definition example_env :: "real \<Rightarrow> env" where
  "example_env t =
     \<lparr> now = t, sys_numlock = Some False, grab_ok = True, bus_ok = True,
       xinput_output = Some [''Device Enabled (189): 1''] \<rparr>"

text \<open>The numpad is on and nothing touches the pad.\<close>

definition active_state :: state where
  "active_state = initial_state\<lparr> numlock := True, grabbed := True \<rparr>"

text \<open>Slot 1 still holds a key while the cursor is on slot 0.\<close>

definition two_slots_state :: state where
  "two_slots_state =
     active_state\<lparr> abs_mt_slot_numpad_key :=
                      [None, Some (EventCode ''KEY_KP5''), None, None, None] \<rparr>"

text \<open>An environment in which the \<^verbatim>\<open>xinput\<close> query raises.\<close>

definition failing_env :: env where
  "failing_env = (example_env 0)\<lparr> xinput_output := None \<rparr>"

text \<open>The LED monitor is allowed to switch the numpad on.\<close>

definition led_driven_layout :: config where
  "led_driven_layout = example_layout\<lparr> sys_numlock_enables_numpad := True \<rparr>"

definition led_on_env :: env where
  "led_on_env = (example_env 0)\<lparr> sys_numlock := Some True \<rparr>"

subsection \<open>Vocabulary of the dispatcher properties\<close>

text \<open>
  A contact reported on the current slot: the environment it is handled in, its
  position, the event code of the grid key at that position, and the value of the
  contact event (1 for down, 0 for up).  The touchpad reports it as the two position
  events followed by the contact event.
\<close>

record contact =
  c_env :: env
  c_x :: int
  c_y :: int
  c_key :: string
  c_value :: int

fun contact_events :: "contact list \<Rightarrow> (env \<times> event) list" where
  "contact_events [] = []"
| "contact_events (p # ps) =
     (c_env p, ABS_MT_POSITION_X (c_x p)) # (c_env p, ABS_MT_POSITION_Y (c_y p))
     # (c_env p, BTN_TOOL FINGER (c_value p)) # contact_events ps"

text \<open>A press with its release, at once, for every contact-down.\<close>

fun paired_output :: "contact list \<Rightarrow> input_event list" where
  "paired_output [] = []"
| "paired_output (p # ps) =
     (if c_value p = 1 then [key_down (c_key p), syn, key_up (c_key p), syn] else [])
     @ paired_output ps"

text \<open>
  The numpad is on, the current slot is a supported one that holds no key, and no icon
  gesture is pending.
\<close>

definition idle_slot :: "state \<Rightarrow> bool" where
  "idle_slot s =
     (slots_ok s \<and> \<not> unsupported_abs_mt_slot s \<and> numlock s \<and> cur_key s = None
      \<and> top_left_icon_touch_start_time s = 0 \<and> top_right_icon_touch_start_time s = 0)"





fun timestamps :: "(env \<times> int) list \<Rightarrow> (env \<times> event) list" where
  "timestamps [] = []"
| "timestamps ((e, v) # ts) = (e, MSC_TIMESTAMP v) # timestamps ts"

subsection \<open>Further examples\<close>

text \<open>
  One row of seven keys on a touchpad whose x axis runs from 0 to 288: the width of a
  column, 288 / 7, is not a double.
\<close>

definition seven_column_layout :: config where
  "seven_column_layout =
     example_layout\<lparr> geom :=
       \<lparr> keys = [ [Some (EventCode ''KEY_KP7''), Some (EventCode ''KEY_KP8''),
                   Some (EventCode ''KEY_KP9''), Some (EventCode ''KEY_KP4''),
                   Some (EventCode ''KEY_KP5''), Some (EventCode ''KEY_KP6''),
                   Some (EventCode ''KEY_KP1'')] ],
         minx = 0, maxx = 288, miny = 0, maxy = 300,
         left_offset = 0, right_offset = 0, top_offset = 0, bottom_offset = 0 \<rparr> \<rparr>"

definition repetition_layout :: config where
  "repetition_layout = example_layout\<lparr> key_repetitions := True \<rparr>"

definition rotation_layout :: config where
  "rotation_layout =
     example_layout\<lparr> key_repetitions := True, one_touch_key_rotation := True \<rparr>"

text \<open>The finger rests on the key 7, which is down.\<close>

definition held_key_state :: state where
  "held_key_state =
     active_state\<lparr> abs_mt_slot_numpad_key :=
                      [Some (EventCode ''KEY_KP7''), None, None, None, None],
                    abs_mt_slot_x_values := [10, - 1, - 1, - 1, - 1],
                    abs_mt_slot_y_values := [10, - 1, - 1, - 1, - 1],
                    udev_events := [key_down ''KEY_KP7'', syn] \<rparr>"

text \<open>The finger is over the numlock icon, before and after the contact-down.\<close>

definition icon_touch_state :: state where
  "icon_touch_state =
     active_state\<lparr> abs_mt_slot_x_values := [290, - 1, - 1, - 1, - 1],
                    abs_mt_slot_y_values := [10, - 1, - 1, - 1, - 1] \<rparr>"

definition icon_hold_state :: state where
  "icon_hold_state =
     icon_touch_state\<lparr> abs_mt_slot_numpad_key := [Some KEY_NUMLOCK, None, None, None, None],
                        top_right_icon_touch_start_time := 5 \<rparr>"

text \<open>Two seconds later, with the touchpad reported as disabled.\<close>

definition disabled_env :: env where
  "disabled_env = (example_env 7)\<lparr> xinput_output := Some [''Device Enabled (189): 0''] \<rparr>"

section \<open>Geometry mapper\<close>



































lemma example_get_touched_key:
  "get_touched_key example_layout 10 10 = Inr (Some (EventCode ''KEY_KP7''))"
  "get_touched_key example_layout 150 10 = Inr (Some (EventCode ''KEY_KP8''))"
  "get_touched_key example_layout 250 250 = Inr (Some (EventCode ''KEY_KP3''))"
  "get_touched_key example_layout 310 10 = Inr None"
  "get_touched_key repetition_layout 10 10 = Inr (Some (EventCode ''KEY_KP7''))"
  "get_touched_key rotation_layout 150 10 = Inr (Some (EventCode ''KEY_KP8''))"
  "get_touched_key seven_column_layout 288 10 = Inr (Some (EventCode ''KEY_KP1''))"
  by code_simp+


section \<open>Activation state machine\<close>

lemma numpad_cmd_inj: "numpad_cmd c a = numpad_cmd c b \<longleftrightarrow> a = b"
  by (simp add: numpad_cmd_def)

text \<open>
  C6.  The LED monitor asks for a transition only from the other state.  Two polls in a
  row that see the LED lit, on a layout where the LED drives the numpad, switch the
  numpad on at the first poll and change nothing at the second, so that the power-on
  command is issued once (the grab succeeding); two polls in a row that see the LED
  dark while the numpad is on switch it off at the first poll and change nothing at
  the second, so that the power-off command is issued once.
\<close>

theorem activation_requests_idempotent:
  "(sys_numlock ea = Some True \<and> sys_numlock eb = Some True \<and> sys_numlock_enables_numpad c
      \<and> \<not> numlock s \<and> grab_ok ea \<longrightarrow>
      (let s1 = check_system_numlock_vs_local c ea s;
           s2 = check_system_numlock_vs_local c eb s1
       in numlock s1 \<and> s2 = s1
          \<and> count_list (bus_commands s2) (power_on_cmd c)
              = count_list (bus_commands s) (power_on_cmd c) + 1))
   \<and> (sys_numlock ea \<noteq> Some True \<and> sys_numlock eb \<noteq> Some True \<and> numlock s \<and> grab_ok ea \<longrightarrow>
      (let s1 = check_system_numlock_vs_local c ea s;
           s2 = check_system_numlock_vs_local c eb s1
       in \<not> numlock s1 \<and> s2 = s1
          \<and> bus_commands s2 = bus_commands s @ [power_off_cmd c]))"
  by (simp add: check_system_numlock_vs_local_def activate_numpad_def deactivate_numpad_def
      call_def Let_def power_on_cmd_def power_off_cmd_def numpad_cmd_inj)

theorem activation_requests_idempotent_witness:
  "sys_numlock led_on_env = Some True \<and> sys_numlock_enables_numpad led_driven_layout
   \<and> \<not> numlock initial_state \<and> grab_ok led_on_env
   \<and> (let s1 = check_system_numlock_vs_local led_driven_layout led_on_env initial_state;
           s2 = check_system_numlock_vs_local led_driven_layout led_on_env s1
       in numlock s1 \<and> s2 = s1
          \<and> count_list (bus_commands s2) (power_on_cmd led_driven_layout) = 1)
   \<and> sys_numlock (example_env 0) \<noteq> Some True \<and> numlock active_state
   \<and> grab_ok (example_env 0)
   \<and> (let s1 = check_system_numlock_vs_local example_layout (example_env 0) active_state;
           s2 = check_system_numlock_vs_local example_layout (example_env 0) s1
       in \<not> numlock s1 \<and> s2 = s1
          \<and> bus_commands s2 = [power_off_cmd example_layout])"
proof -
  have on: "sys_numlock led_on_env = Some True" "grab_ok led_on_env"
    by (simp_all add: led_on_env_def example_env_def)
  have drives: "sys_numlock_enables_numpad led_driven_layout"
    by (simp add: led_driven_layout_def)
  have start: "\<not> numlock initial_state" "bus_commands initial_state = []"
    by (simp_all add: initial_state_def)
  have dark: "sys_numlock (example_env 0) \<noteq> Some True" "grab_ok (example_env 0)"
    by (simp_all add: example_env_def)
  have active: "numlock active_state" "bus_commands active_state = []"
    by (simp_all add: active_state_def initial_state_def)
  show ?thesis
    using activation_requests_idempotent
            [of led_on_env led_on_env led_driven_layout initial_state]
          activation_requests_idempotent
            [of "example_env 0" "example_env 0" example_layout active_state]
          on drives start dark active
    by (auto simp add: Let_def)
qed

text \<open>
  C3, as the code has it.  A switch from on to off made by the toggle
  \<^verbatim>\<open>local_numlock_pressed\<close> clears the key of the current slot, whatever the grab and
  the bus do, and leaves the keys of the other slots as they were; the switch made by
  the monitors, \<^verbatim>\<open>deactivate_numpad\<close> alone, leaves the key of every slot as it was.
\<close>

theorem deactivation_clears_current_slot_only:
  assumes "numlock s"
  shows "\<not> numlock (local_numlock_pressed c e s)
       \<and> abs_mt_slot_numpad_key (local_numlock_pressed c e s)
           = (abs_mt_slot_numpad_key s)[abs_mt_slot_value s := None]
       \<and> abs_mt_slot_numpad_key (deactivate_numpad c e (s\<lparr> numlock := False \<rparr>))
           = abs_mt_slot_numpad_key s"
  using assms
  by (simp add: local_numlock_pressed_def deactivate_numpad_def set_none_to_current_mt_slot_def
      send_numlock_key_def send_events_def call_def Let_def)

theorem deactivation_clears_current_slot_only_witness:
  "numlock two_slots_state
   \<and> abs_mt_slot_numpad_key (local_numlock_pressed example_layout failing_env two_slots_state)
       = [None, Some (EventCode ''KEY_KP5''), None, None, None]"
  using deactivation_clears_current_slot_only [of two_slots_state example_layout failing_env]
  by (simp add: two_slots_state_def active_state_def initial_state_def)

text \<open>
  The claim C3 as it is written fails: after the toggle has switched the numpad off
  with the cursor on slot 0, slot 1 still holds its key.
\<close>

theorem deactivation_leaves_other_slot_counterexample:
  "numlock two_slots_state
   \<and> \<not> numlock (local_numlock_pressed example_layout (example_env 0) two_slots_state)
   \<and> abs_mt_slot_numpad_key
         (local_numlock_pressed example_layout (example_env 0) two_slots_state) ! 1
       = Some (EventCode ''KEY_KP5'')"
  by (simp add: two_slots_state_def active_state_def initial_state_def
      local_numlock_pressed_def deactivate_numpad_def set_none_to_current_mt_slot_def
      send_numlock_key_def send_events_def call_def Let_def example_env_def)

lemma increase_brightness_step:
  assumes "0 < length (backlight_levels c)" and "- 1 \<le> brightness s"
    and "brightness s < int (length (backlight_levels c))"
  shows "\<exists>s'. increase_brightness c s = Inr s'
       \<and> brightness s' = (brightness s + 1) mod int (length (backlight_levels c))
       \<and> config_writes s' = config_writes s @ [backlight_levels c ! nat (brightness s')]
       \<and> bus_commands s' =
           bus_commands s @ [numpad_cmd c (backlight_levels c ! nat (brightness s'))]"
proof (cases "brightness s + 1 \<ge> int (length (backlight_levels c))")
  case True
  then have "brightness s + 1 = int (length (backlight_levels c))" using assms by linarith
  then have "(brightness s + 1) mod int (length (backlight_levels c)) = 0" by simp
  then show ?thesis using True assms(1)
    by (simp add: increase_brightness_def py_index_def call_def Let_def)
next
  case False
  then have "(brightness s + 1) mod int (length (backlight_levels c)) = brightness s + 1"
    using assms by simp
  then show ?thesis using False assms(2)
    by (simp add: increase_brightness_def py_index_def call_def Let_def)
qed

text \<open>
  C7.  With at least one backlight level and the index in its range (from the unset
  \<open>-1\<close> up to the last level), \<^verbatim>\<open>increase_brightness\<close> returns, the new index is the
  old one plus one modulo the number of levels, the new level is written to the store
  once and one bus command carries it.  Starting from \<open>-1\<close> with the levels
  \<^verbatim>\<open>["0x01", "0x02"]\<close>, three advances visit the indices 0, 1, 0.
\<close>

theorem increase_brightness_advance:
  assumes "0 < length (backlight_levels c)" and "- 1 \<le> brightness s"
    and "brightness s < int (length (backlight_levels c))"
  shows "(\<exists>s'. increase_brightness c s = Inr s'
       \<and> brightness s' = (brightness s + 1) mod int (length (backlight_levels c))
       \<and> config_writes s' = config_writes s @ [backlight_levels c ! nat (brightness s')]
       \<and> bus_commands s' =
           bus_commands s @ [numpad_cmd c (backlight_levels c ! nat (brightness s'))])
     \<and> (backlight_levels c = [''0x01'', ''0x02''] \<and> brightness s = - 1 \<longrightarrow>
          (\<exists>s1 s2 s3. increase_brightness c s = Inr s1 \<and> increase_brightness c s1 = Inr s2
             \<and> increase_brightness c s2 = Inr s3
             \<and> brightness s1 = 0 \<and> brightness s2 = 1 \<and> brightness s3 = 0))"
proof
  show "\<exists>s'. increase_brightness c s = Inr s'
       \<and> brightness s' = (brightness s + 1) mod int (length (backlight_levels c))
       \<and> config_writes s' = config_writes s @ [backlight_levels c ! nat (brightness s')]
       \<and> bus_commands s' =
           bus_commands s @ [numpad_cmd c (backlight_levels c ! nat (brightness s'))]"
    using assms by (rule increase_brightness_step)
next
  show "backlight_levels c = [''0x01'', ''0x02''] \<and> brightness s = - 1 \<longrightarrow>
          (\<exists>s1 s2 s3. increase_brightness c s = Inr s1 \<and> increase_brightness c s1 = Inr s2
             \<and> increase_brightness c s2 = Inr s3
             \<and> brightness s1 = 0 \<and> brightness s2 = 1 \<and> brightness s3 = 0)"
    by (simp add: increase_brightness_def py_index_def call_def Let_def)
qed

theorem increase_brightness_advance_witness:
  "0 < length (backlight_levels example_layout)
   \<and> - 1 \<le> brightness (active_state\<lparr> brightness := - 1 \<rparr>)
   \<and> brightness (active_state\<lparr> brightness := - 1 \<rparr>) < int (length (backlight_levels example_layout))
   \<and> backlight_levels example_layout = [''0x01'', ''0x02'']
   \<and> (\<exists>s1 s2 s3. increase_brightness example_layout (active_state\<lparr> brightness := - 1 \<rparr>) = Inr s1
         \<and> increase_brightness example_layout s1 = Inr s2
         \<and> increase_brightness example_layout s2 = Inr s3
         \<and> brightness s1 = 0 \<and> brightness s2 = 1 \<and> brightness s3 = 0)"
  using increase_brightness_advance [of example_layout "active_state\<lparr> brightness := - 1 \<rparr>"]
  by (simp add: example_layout_def)

section \<open>Key emission engine\<close>

text \<open>
  C8 does not hold of the code.  For the string \<^verbatim>\<open>"ab"\<close> the events returned are the
  compose sequence of \<^verbatim>\<open>"a"\<close> (code point 0x61) alone: the \<^verbatim>\<open>return\<close> inside the loop
  ends it at the first character.
\<close>

theorem compose_sequence_stops_after_first_character:
  "get_events_for_unicode_string example_layout [97, 98] =
     Some [ InputEvent MSC_SCAN 29, key_down ''KEY_LEFTCTRL'', syn,
            InputEvent MSC_SCAN 42, key_down ''KEY_LEFTSHIFT'', syn,
            InputEvent MSC_SCAN 22, key_down ''KEY_U'', syn,
            InputEvent MSC_SCAN 7, key_down ''KEY_6'', syn,
            InputEvent MSC_SCAN 7, key_up ''KEY_6'', syn,
            InputEvent MSC_SCAN 2, key_down ''KEY_1'', syn,
            InputEvent MSC_SCAN 2, key_up ''KEY_1'', syn,
            InputEvent MSC_SCAN 29, key_up ''KEY_LEFTCTRL'', syn,
            InputEvent MSC_SCAN 42, key_up ''KEY_LEFTSHIFT'', syn,
            InputEvent MSC_SCAN 22, key_up ''KEY_U'', syn ]"
  by code_simp

section \<open>Touchpad status monitor\<close>

lemma failing_poll:
  assumes "xinput_output e = None"
  shows "getting_device_status_failure_count (check_touchpad_status c e s) = 1"
  using assms
  by (simp add: check_touchpad_status_def is_device_enabled_def Let_def)

lemma failing_polls_keep_running:
  assumes "\<forall>e \<in> set es. xinput_output e = None"
    and "getting_device_status_failure_count s < 9"
  shows "fst (check_touchpad_status_endless_cycle c es s) = False
       \<and> getting_device_status_failure_count (snd (check_touchpad_status_endless_cycle c es s))
           = (if es = [] then getting_device_status_failure_count s else 1)"
  using assms
proof (induction es arbitrary: s)
  case Nil
  then show ?case by simp
next
  case (Cons e es)
  have one: "getting_device_status_failure_count (check_touchpad_status c e s) = 1"
    using Cons.prems(1) by (simp add: failing_poll)
  then have "getting_device_status_failure_count (check_touchpad_status c e s) < 9" by simp
  with Cons.IH[of "check_touchpad_status c e s"] Cons.prems one show ?case by simp
qed

text \<open>
  C9 does not hold of the code.  \<^verbatim>\<open>is_device_enabled\<close> sets the failure counter to 0
  on entry, so a failed query leaves it at 1 however many queries failed before (lemma
  \<open>failing_polls_keep_running\<close>); after twenty polls that all fail the loop of the
  monitor is still running.
\<close>

theorem failing_polls_never_end_monitor:
  "check_touchpad_status_endless_cycle example_layout (replicate 20 failing_env) initial_state
     = (False, initial_state\<lparr> getting_device_status_failure_count := 1 \<rparr>)"
  by code_simp

section \<open>Event dispatcher\<close>

subsection \<open>The hold gesture on the numlock icon\<close>

lemma local_numlock_pressed_fields:
  "numlock (local_numlock_pressed c e s) = (\<not> numlock s)"
  "top_right_icon_touch_start_time (local_numlock_pressed c e s) = top_right_icon_touch_start_time s"
  by (simp_all add: local_numlock_pressed_def activate_numpad_def deactivate_numpad_def
      set_none_to_current_mt_slot_def send_numlock_key_def send_events_def call_def Let_def)

lemma is_device_enabled_state:
  "\<exists>k. snd (is_device_enabled e s) = s\<lparr> getting_device_status_failure_count := k \<rparr>"
  by (auto simp add: is_device_enabled_def Let_def split: option.splits)

lemma timestamp_disarmed:
  assumes "\<not> unsupported_abs_mt_slot s" and "top_right_icon_touch_start_time s = 0"
    and "cur_key s = Some KEY_NUMLOCK"
  shows "listen_touchpad_event c e (MSC_TIMESTAMP v) s = Inr (s\<lparr> last_event_time := now e \<rparr>)"
  using assms
  by (simp add: listen_touchpad_event_def timestamp_block_def Let_def
      takes_top_right_icon_touch_longer_then_set_up_activation_time_def
      takes_top_left_icon_touch_longer_then_set_up_activation_time_def)

lemma timestamps_disarmed:
  assumes "\<not> unsupported_abs_mt_slot s" and "top_right_icon_touch_start_time s = 0"
    and "cur_key s = Some KEY_NUMLOCK"
  shows "\<exists>s'. listen_touchpad_events c (timestamps ts) s = Inr s'
           \<and> numlock s' = numlock s \<and> top_right_icon_touch_start_time s' = 0
           \<and> udev_events s' = udev_events s \<and> bus_commands s' = bus_commands s"
  using assms
proof (induction ts arbitrary: s)
  case Nil
  then show ?case by simp
next
  case (Cons a ts)
  obtain e v where a: "a = (e, v)" by (cases a)
  let ?s = "s\<lparr> last_event_time := now e \<rparr>"
  have step: "listen_touchpad_event c e (MSC_TIMESTAMP v) s = Inr ?s"
    using Cons.prems by (rule timestamp_disarmed)
  have "\<exists>s'. listen_touchpad_events c (timestamps ts) ?s = Inr s'
           \<and> numlock s' = numlock ?s \<and> top_right_icon_touch_start_time s' = 0
           \<and> udev_events s' = udev_events ?s \<and> bus_commands s' = bus_commands ?s"
    using Cons.prems by (intro Cons.IH) simp_all
  then show ?case using step a by simp
qed

lemma hold_step:
  assumes "\<not> unsupported_abs_mt_slot s"
    and "is_pressed_touchpad_top_right_icon c s"
    and "top_right_icon_touch_start_time s \<noteq> 0"
    and "cur_key s = Some KEY_NUMLOCK"
    and "now e - top_right_icon_touch_start_time s > top_right_icon_activation_time (icon c)"
  shows "listen_touchpad_event c e (MSC_TIMESTAMP v) s =
           (let s1 = snd (is_device_enabled e
                       (s\<lparr> last_event_time := now e, top_right_icon_touch_start_time := 0 \<rparr>))
            in if touchpad_disables_numpad c \<and> \<not> fst (is_device_enabled e s)
               then Inr s1 else Inr (local_numlock_pressed c e s1))"
proof -
  have fst_eq: "fst (is_device_enabled e t) = fst (is_device_enabled e s)" for t
    by (simp add: is_device_enabled_def Let_def split: option.splits)
  have pressed: "is_pressed_touchpad_top_right_icon c (s\<lparr> last_event_time := now e \<rparr>)"
    using assms(2) by (simp add: is_pressed_touchpad_top_right_icon_def)
  show ?thesis
    using assms pressed
      fst_eq[of "s\<lparr> last_event_time := now e, top_right_icon_touch_start_time := 0 \<rparr>"]
    by (auto simp add: listen_touchpad_event_def timestamp_block_def Let_def
        takes_top_right_icon_touch_longer_then_set_up_activation_time_def
        split: prod.splits)
qed

text \<open>
  C10.  When a timestamp event finds the contact on the numlock icon with the hold
  time exceeded, the dispatcher returns with the hold timer at 0, and the numpad has
  been toggled exactly when \<^verbatim>\<open>touchpad_disables_numpad\<close> is false or the touchpad is
  reported enabled.  When the flag is set and the touchpad is reported disabled,
  nothing is written and no bus command is issued, and any number of further timestamp
  events leaves the activation as it was: with the timer at 0 the hold test fails until
  a new contact-down on the icon starts the timer again.
\<close>

theorem numlock_hold_gated_by_touchpad_state:
  assumes "\<not> unsupported_abs_mt_slot s"
    and "is_pressed_touchpad_top_right_icon c s"
    and "top_right_icon_touch_start_time s \<noteq> 0"
    and "cur_key s = Some KEY_NUMLOCK"
    and "now e - top_right_icon_touch_start_time s > top_right_icon_activation_time (icon c)"
  shows "\<exists>s'. listen_touchpad_event c e (MSC_TIMESTAMP v) s = Inr s'
       \<and> top_right_icon_touch_start_time s' = 0
       \<and> numlock s' = (if touchpad_disables_numpad c \<and> \<not> fst (is_device_enabled e s)
                       then numlock s else \<not> numlock s)
       \<and> (touchpad_disables_numpad c \<and> \<not> fst (is_device_enabled e s) \<longrightarrow>
            udev_events s' = udev_events s \<and> bus_commands s' = bus_commands s
            \<and> (\<forall>ts. \<exists>s''. listen_touchpad_events c (timestamps ts) s' = Inr s''
                  \<and> numlock s'' = numlock s \<and> udev_events s'' = udev_events s
                  \<and> bus_commands s'' = bus_commands s))"
proof -
  let ?s0 = "s\<lparr> last_event_time := now e, top_right_icon_touch_start_time := 0 \<rparr>"
  obtain k where k: "snd (is_device_enabled e ?s0) = ?s0\<lparr> getting_device_status_failure_count := k \<rparr>"
    using is_device_enabled_state by blast
  let ?s1 = "?s0\<lparr> getting_device_status_failure_count := k \<rparr>"
  have step: "listen_touchpad_event c e (MSC_TIMESTAMP v) s =
      (if touchpad_disables_numpad c \<and> \<not> fst (is_device_enabled e s)
       then Inr ?s1 else Inr (local_numlock_pressed c e ?s1))"
    using hold_step[OF assms, of v] k by (simp add: Let_def)
  show ?thesis
  proof (cases "touchpad_disables_numpad c \<and> \<not> fst (is_device_enabled e s)")
    case True
    have "\<exists>s''. listen_touchpad_events c (timestamps ts) ?s1 = Inr s''
           \<and> numlock s'' = numlock ?s1 \<and> top_right_icon_touch_start_time s'' = 0
           \<and> udev_events s'' = udev_events ?s1 \<and> bus_commands s'' = bus_commands ?s1" for ts
      using assms(1,4) by (intro timestamps_disarmed) simp_all
    then have "\<forall>ts. \<exists>s''. listen_touchpad_events c (timestamps ts) ?s1 = Inr s''
           \<and> numlock s'' = numlock s \<and> udev_events s'' = udev_events s
           \<and> bus_commands s'' = bus_commands s"
      by simp blast
    then show ?thesis using True step by simp
  next
    case False
    then show ?thesis using step by (auto simp add: local_numlock_pressed_fields)
  qed
qed

subsection \<open>Contacts that start on an icon\<close>








subsection \<open>Contacts on grid keys\<close>

lemma listen_last [simp]:
  "(case r of Inl err \<Rightarrow> Inl err | Inr s' \<Rightarrow> listen_touchpad_events c [] s') = r"
  by (cases r) simp_all

lemma grid_lookup:
  assumes "get_touched_key c x y = Inr (Some k)"
  shows "mantissa (col_width c) \<noteq> 0" "mantissa (row_height c) \<noteq> 0"
    "0 \<le> cell_index (x - minx_numpad c) (col_width c)"
    "0 \<le> cell_index (y - miny_numpad c) (row_height c)"
    "nat (cell_index (y - miny_numpad c) (row_height c)) < length (keys (geom c))"
    "nat (cell_index (x - minx_numpad c) (col_width c))
       < length (keys (geom c) ! nat (cell_index (y - miny_numpad c) (row_height c)))"
    "keys (geom c) ! nat (cell_index (y - miny_numpad c) (row_height c))
       ! nat (cell_index (x - minx_numpad c) (col_width c)) = Some k"
  using assms by (auto simp add: get_touched_key_def Let_def split: if_splits)

lemma grid_block_on_key:
  assumes "numlock s" and "in_numpad c (cur_x s) (cur_y s)"
    and "get_touched_key c (cur_x s) (cur_y s) = Inr (Some k)"
  shows "grid_block c v s =
     (if cur_key s = None \<and> v = 0 then Inr s
      else
        let s1 = s\<lparr> abs_mt_slot_numpad_key :=
                      (abs_mt_slot_numpad_key s)[abs_mt_slot_value s := Some k] \<rparr>
        in if v = 1 then
             (if key_repetitions c then pressed_numpad_key c s1
              else (case pressed_numpad_key c s1 of
                      Inl err \<Rightarrow> Inl err
                    | Inr s2 \<Rightarrow> Inr (unpressed_numpad_key c None s2)))
           else Inr (unpressed_numpad_key c None s1))"
  using assms(1,2) grid_lookup[OF assms(3)]
  by (simp add: grid_block_def in_numpad_def Let_def)

lemma pressed_event_key:
  assumes "cur_key s = Some (EventCode n)" and "ecodes c n \<noteq> 0"
  shows "pressed_numpad_key c s = Inr (send_events [key_down n, syn] s)"
  using assms by (simp add: pressed_numpad_key_def)

lemma unpressed_event_key:
  assumes "cur_key s = Some (EventCode n)" and "ecodes c n \<noteq> 0"
  shows "unpressed_numpad_key c None s = set_none_to_current_mt_slot (send_events [key_up n, syn] s)"
    and "truthy (Some k) \<Longrightarrow> unpressed_numpad_key c (Some k) s =
       (send_events [key_up n, syn] s)\<lparr> abs_mt_slot_numpad_key :=
          (abs_mt_slot_numpad_key s)[abs_mt_slot_value s := Some k] \<rparr>"
  using assms by (simp_all add: unpressed_numpad_key_def Let_def send_events_def)

lemma is_pressed_as_position:
  "is_pressed_touchpad_top_right_icon c s = in_top_right_icon c (cur_x s) (cur_y s)"
  "is_pressed_touchpad_top_left_icon c s = in_top_left_icon c (cur_x s) (cur_y s)"
  by (auto simp add: is_pressed_touchpad_top_right_icon_def in_top_right_icon_def
      is_pressed_touchpad_top_left_icon_def in_top_left_icon_def)

lemma tool_block_on_grid:
  assumes "\<not> in_top_right_icon c (cur_x s) (cur_y s)" and "\<not> in_top_left_icon c (cur_x s) (cur_y s)"
    and "top_left_icon_touch_start_time s = 0" and "top_right_icon_touch_start_time s = 0"
  shows "tool_block c e v s = grid_block c v s"
  using assms
  by (simp add: tool_block_def is_pressed_as_position is_slided_from_top_left_icon_def
      is_slided_from_top_right_icon_def)

lemma contact_step:
  assumes "idle_slot s" and "on_grid_key c x y n"
  shows "listen_touchpad_events c
           [(e, ABS_MT_POSITION_X x), (e, ABS_MT_POSITION_Y y), (e, BTN_TOOL t v)] s =
         grid_block c v
           (s\<lparr> abs_mt_slot_x_values := (abs_mt_slot_x_values s)[abs_mt_slot_value s := x],
               abs_mt_slot_y_values := (abs_mt_slot_y_values s)[abs_mt_slot_value s := y],
               last_event_time := now e \<rparr>)"
proof -
  let ?s = "s\<lparr> abs_mt_slot_x_values := (abs_mt_slot_x_values s)[abs_mt_slot_value s := x],
               abs_mt_slot_y_values := (abs_mt_slot_y_values s)[abs_mt_slot_value s := y],
               last_event_time := now e \<rparr>"
  have pos: "cur_x ?s = x" "cur_y ?s = y"
    using assms(1) by (simp_all add: idle_slot_def slots_ok_def)
  have "listen_touchpad_events c
           [(e, ABS_MT_POSITION_X x), (e, ABS_MT_POSITION_Y y), (e, BTN_TOOL t v)] s
        = listen_touchpad_event c e (BTN_TOOL t v) ?s"
    using assms(1)
    by (simp add: idle_slot_def listen_touchpad_event_def is_not_finger_moved_to_another_key_def)
  also have "\<dots> = tool_block c e v ?s"
    using assms(1) by (simp add: idle_slot_def listen_touchpad_event_def)
  also have "\<dots> = grid_block c v ?s"
    using assms pos by (intro tool_block_on_grid) (simp_all add: idle_slot_def on_grid_key_def)
  finally show ?thesis .
qed

lemma contact_paired:
  assumes "idle_slot s" and "on_grid_key c x y n" and "\<not> key_repetitions c" and "v = 0 \<or> v = 1"
  shows "\<exists>s'. listen_touchpad_events c
           [(e, ABS_MT_POSITION_X x), (e, ABS_MT_POSITION_Y y), (e, BTN_TOOL t v)] s = Inr s'
         \<and> idle_slot s'
         \<and> udev_events s' = udev_events s @ (if v = 1 then [key_down n, syn, key_up n, syn] else [])"
proof -
  let ?s = "s\<lparr> abs_mt_slot_x_values := (abs_mt_slot_x_values s)[abs_mt_slot_value s := x],
               abs_mt_slot_y_values := (abs_mt_slot_y_values s)[abs_mt_slot_value s := y],
               last_event_time := now e \<rparr>"
  have pos: "cur_x ?s = x" "cur_y ?s = y"
    using assms(1) by (simp_all add: idle_slot_def slots_ok_def)
  have idle: "idle_slot ?s" using assms(1) by (simp add: idle_slot_def slots_ok_def)
  have gb: "grid_block c v ?s =
     (if cur_key ?s = None \<and> v = 0 then Inr ?s
      else
        let s1 = ?s\<lparr> abs_mt_slot_numpad_key :=
                      (abs_mt_slot_numpad_key ?s)[abs_mt_slot_value ?s := Some (EventCode n)] \<rparr>
        in if v = 1 then
             (if key_repetitions c then pressed_numpad_key c s1
              else (case pressed_numpad_key c s1 of
                      Inl err \<Rightarrow> Inl err
                    | Inr s2 \<Rightarrow> Inr (unpressed_numpad_key c None s2)))
           else Inr (unpressed_numpad_key c None s1))"
    using idle assms(2) pos
    by (intro grid_block_on_key) (simp_all add: idle_slot_def on_grid_key_def)
  let ?s1 = "?s\<lparr> abs_mt_slot_numpad_key :=
                      (abs_mt_slot_numpad_key ?s)[abs_mt_slot_value ?s := Some (EventCode n)] \<rparr>"
  have k1: "cur_key ?s1 = Some (EventCode n)" using assms(1) by (simp add: idle_slot_def slots_ok_def)
  have en: "ecodes c n \<noteq> 0" using assms(2) by (simp add: on_grid_key_def)
  have p: "pressed_numpad_key c ?s1 = Inr (send_events [key_down n, syn] ?s1)"
    using k1 en by (rule pressed_event_key)
  have k2: "cur_key (send_events [key_down n, syn] ?s1) = Some (EventCode n)"
    using k1 by (simp add: send_events_def)
  have u: "unpressed_numpad_key c None (send_events [key_down n, syn] ?s1)
       = set_none_to_current_mt_slot (send_events [key_up n, syn] (send_events [key_down n, syn] ?s1))"
    using k2 en by (rule unpressed_event_key(1))
  show ?thesis
  proof (cases "v = 1")
    case True
    then have "grid_block c v ?s =
        Inr (set_none_to_current_mt_slot (send_events [key_up n, syn] (send_events [key_down n, syn] ?s1)))"
      using gb p u assms(3) by (simp add: Let_def)
    moreover have "idle_slot (set_none_to_current_mt_slot (send_events [key_up n, syn] (send_events [key_down n, syn] ?s1)))"
      using assms(1)
      by (simp add: idle_slot_def slots_ok_def set_none_to_current_mt_slot_def send_events_def)
    moreover have "udev_events (set_none_to_current_mt_slot (send_events [key_up n, syn] (send_events [key_down n, syn] ?s1)))
        = udev_events s @ [key_down n, syn, key_up n, syn]"
      by (simp add: set_none_to_current_mt_slot_def send_events_def)
    ultimately show ?thesis using contact_step[OF assms(1,2), of e t v] True by simp
  next
    case False
    then have v0: "v = 0" using assms(4) by simp
    have "grid_block c v ?s = Inr ?s" using gb v0 idle by (simp add: idle_slot_def)
    then show ?thesis using contact_step[OF assms(1,2), of e t v] idle v0 by simp
  qed
qed

lemma balanced_paired_output: "balanced (paired_output cs)"
  by (induction cs) (auto simp add: balanced_def)

lemma contacts_paired:
  assumes "idle_slot s" and "\<not> key_repetitions c"
    and "\<forall>p \<in> set cs. on_grid_key c (c_x p) (c_y p) (c_key p) \<and> (c_value p = 0 \<or> c_value p = 1)"
  shows "\<exists>s'. listen_touchpad_events c (contact_events cs) s = Inr s' \<and> idle_slot s'
          \<and> udev_events s' = udev_events s @ paired_output cs"
  using assms
proof (induction cs arbitrary: s)
  case Nil
  then show ?case by simp
next
  case (Cons p cs)
  have first: "on_grid_key c (c_x p) (c_y p) (c_key p)" "c_value p = 0 \<or> c_value p = 1"
    using Cons.prems(3) by simp_all
  obtain s1 where s1: "listen_touchpad_events c
           [(c_env p, ABS_MT_POSITION_X (c_x p)), (c_env p, ABS_MT_POSITION_Y (c_y p)),
            (c_env p, BTN_TOOL FINGER (c_value p))] s = Inr s1" "idle_slot s1"
      "udev_events s1 = udev_events s @
         (if c_value p = 1 then [key_down (c_key p), syn, key_up (c_key p), syn] else [])"
    using contact_paired[OF Cons.prems(1) first(1) Cons.prems(2) first(2), of "c_env p" FINGER]
    by blast
  obtain s' where s': "listen_touchpad_events c (contact_events cs) s1 = Inr s'" "idle_slot s'"
      "udev_events s' = udev_events s1 @ paired_output cs"
    using Cons.IH[OF s1(2) Cons.prems(2)] Cons.prems(3) by auto
  have "listen_touchpad_events c (contact_events (p # cs)) s = Inr s'"
    using s1(1) s'(1) by (auto split: sum.splits)
  then show ?case using s1(3) s'(2,3) by simp
qed


lemma contact_held:
  assumes "idle_slot s" and "on_grid_key c x y n" and "key_repetitions c"
  shows "\<exists>s1 s2. listen_touchpad_events c
           [(e, ABS_MT_POSITION_X x), (e, ABS_MT_POSITION_Y y), (e, BTN_TOOL t 1)] s = Inr s1
         \<and> udev_events s1 = udev_events s @ [key_down n, syn]
         \<and> cur_key s1 = Some (EventCode n)
         \<and> listen_touchpad_event c e' (BTN_TOOL t' 0) s1 = Inr s2
         \<and> udev_events s2 = udev_events s @ [key_down n, syn, key_up n, syn]
         \<and> cur_key s2 = None"
proof -
  let ?s = "s\<lparr> abs_mt_slot_x_values := (abs_mt_slot_x_values s)[abs_mt_slot_value s := x],
               abs_mt_slot_y_values := (abs_mt_slot_y_values s)[abs_mt_slot_value s := y],
               last_event_time := now e \<rparr>"
  have pos: "cur_x ?s = x" "cur_y ?s = y"
    using assms(1) by (simp_all add: idle_slot_def slots_ok_def)
  have idle: "idle_slot ?s" using assms(1) by (simp add: idle_slot_def slots_ok_def)
  have en: "ecodes c n \<noteq> 0" using assms(2) by (simp add: on_grid_key_def)
  let ?s1 = "?s\<lparr> abs_mt_slot_numpad_key :=
                      (abs_mt_slot_numpad_key ?s)[abs_mt_slot_value ?s := Some (EventCode n)] \<rparr>"
  have k1: "cur_key ?s1 = Some (EventCode n)" using assms(1) by (simp add: idle_slot_def slots_ok_def)
  have "grid_block c 1 ?s = pressed_numpad_key c ?s1"
    using grid_block_on_key[of ?s c "EventCode n" 1] idle assms(2,3) pos
    by (simp add: idle_slot_def on_grid_key_def Let_def)
  also have "\<dots> = Inr (send_events [key_down n, syn] ?s1)"
    using k1 en by (rule pressed_event_key)
  finally have down: "listen_touchpad_events c
           [(e, ABS_MT_POSITION_X x), (e, ABS_MT_POSITION_Y y), (e, BTN_TOOL t 1)] s
         = Inr (send_events [key_down n, syn] ?s1)"
    using contact_step[OF assms(1,2), of e t 1] by simp
  let ?d = "send_events [key_down n, syn] ?s1"
  let ?dl = "?d\<lparr> last_event_time := now e' \<rparr>"
  have dl: "numlock ?dl" "cur_x ?dl = x" "cur_y ?dl = y" "cur_key ?dl = Some (EventCode n)"
      "\<not> unsupported_abs_mt_slot ?dl" "top_left_icon_touch_start_time ?dl = 0"
      "top_right_icon_touch_start_time ?dl = 0"
    using assms(1) by (simp_all add: idle_slot_def slots_ok_def send_events_def)
  have "listen_touchpad_event c e' (BTN_TOOL t' 0) ?d = tool_block c e' 0 ?dl"
    using dl(5) by (simp add: listen_touchpad_event_def send_events_def)
  also have "\<dots> = grid_block c 0 ?dl"
    using dl assms(2) by (intro tool_block_on_grid) (simp_all add: on_grid_key_def)
  also have "\<dots> = Inr (unpressed_numpad_key c None
        (?dl\<lparr> abs_mt_slot_numpad_key :=
                      (abs_mt_slot_numpad_key ?dl)[abs_mt_slot_value ?dl := Some (EventCode n)] \<rparr>))"
    using grid_block_on_key[of ?dl c "EventCode n" 0] dl assms(2)
    by (simp add: on_grid_key_def Let_def)
  also have "\<dots> = Inr (set_none_to_current_mt_slot (send_events [key_up n, syn]
        (?dl\<lparr> abs_mt_slot_numpad_key :=
                      (abs_mt_slot_numpad_key ?dl)[abs_mt_slot_value ?dl := Some (EventCode n)] \<rparr>)))"
    using assms(1) en
    by (subst unpressed_event_key(1)[where n = n])
       (simp_all add: idle_slot_def slots_ok_def send_events_def)
  finally have up: "listen_touchpad_event c e' (BTN_TOOL t' 0) ?d =
      Inr (set_none_to_current_mt_slot (send_events [key_up n, syn]
        (?dl\<lparr> abs_mt_slot_numpad_key :=
                      (abs_mt_slot_numpad_key ?dl)[abs_mt_slot_value ?dl := Some (EventCode n)] \<rparr>)))" .
  let ?f = "set_none_to_current_mt_slot (send_events [key_up n, syn]
        (?dl\<lparr> abs_mt_slot_numpad_key :=
                      (abs_mt_slot_numpad_key ?dl)[abs_mt_slot_value ?dl := Some (EventCode n)] \<rparr>))"
  have f: "udev_events ?d = udev_events s @ [key_down n, syn]" "cur_key ?d = Some (EventCode n)"
    using assms(1) by (simp_all add: send_events_def idle_slot_def slots_ok_def)
  have g: "udev_events ?f = udev_events s @ [key_down n, syn, key_up n, syn]" "cur_key ?f = None"
    using assms(1)
    by (simp_all add: send_events_def set_none_to_current_mt_slot_def idle_slot_def slots_ok_def)
  show ?thesis
  proof (rule exI[of _ ?d], rule exI[of _ ?f], intro conjI)
    show "listen_touchpad_events c
           [(e, ABS_MT_POSITION_X x), (e, ABS_MT_POSITION_Y y), (e, BTN_TOOL t 1)] s = Inr ?d"
      by (fact down)
    show "udev_events ?d = udev_events s @ [key_down n, syn]" by (fact f(1))
    show "cur_key ?d = Some (EventCode n)" by (fact f(2))
    show "listen_touchpad_event c e' (BTN_TOOL t' 0) ?d = Inr ?f" by (fact up)
    show "udev_events ?f = udev_events s @ [key_down n, syn, key_up n, syn]" by (fact g(1))
    show "cur_key ?f = None" by (fact g(2))
  qed
qed

text \<open>
  C1, as the code has it.  The slot is idle and the numpad is on.  Without key
  repetition, every sequence of contact-down and contact-up events on grid keys writes,
  for each contact-down, the press of the key followed at once by its release, and
  nothing for a contact-up; the slot is without a key at the end and every key has as
  many presses as releases.  With key repetition, a contact-down writes the press alone
  and leaves the key assigned, and the contact-up that follows writes the release and
  clears the slot.
\<close>

theorem contact_pairing:
  assumes "idle_slot s"
  shows "(\<not> key_repetitions c
           \<and> (\<forall>p \<in> set cs. on_grid_key c (c_x p) (c_y p) (c_key p)
                              \<and> (c_value p = 0 \<or> c_value p = 1)) \<longrightarrow>
           (\<exists>s'. listen_touchpad_events c (contact_events cs) s = Inr s'
              \<and> cur_key s' = None
              \<and> udev_events s' = udev_events s @ paired_output cs
              \<and> balanced (paired_output cs)))
       \<and> (key_repetitions c \<and> on_grid_key c x y n \<longrightarrow>
           (\<exists>s1 s2. listen_touchpad_events c
                 [(e, ABS_MT_POSITION_X x), (e, ABS_MT_POSITION_Y y), (e, BTN_TOOL t 1)] s = Inr s1
              \<and> udev_events s1 = udev_events s @ [key_down n, syn]
              \<and> cur_key s1 = Some (EventCode n)
              \<and> listen_touchpad_event c e' (BTN_TOOL t' 0) s1 = Inr s2
              \<and> udev_events s2 = udev_events s @ [key_down n, syn, key_up n, syn]
              \<and> cur_key s2 = None))"
proof (intro conjI impI)
  assume a: "\<not> key_repetitions c
           \<and> (\<forall>p \<in> set cs. on_grid_key c (c_x p) (c_y p) (c_key p)
                              \<and> (c_value p = 0 \<or> c_value p = 1))"
  then obtain s' where "listen_touchpad_events c (contact_events cs) s = Inr s'" "idle_slot s'"
      "udev_events s' = udev_events s @ paired_output cs"
    using contacts_paired[OF assms, of c cs] by blast
  then show "\<exists>s'. listen_touchpad_events c (contact_events cs) s = Inr s'
              \<and> cur_key s' = None
              \<and> udev_events s' = udev_events s @ paired_output cs
              \<and> balanced (paired_output cs)"
    using balanced_paired_output[of cs] by (auto simp add: idle_slot_def)
next
  assume "key_repetitions c \<and> on_grid_key c x y n"
  then show "\<exists>s1 s2. listen_touchpad_events c
                 [(e, ABS_MT_POSITION_X x), (e, ABS_MT_POSITION_Y y), (e, BTN_TOOL t 1)] s = Inr s1
              \<and> udev_events s1 = udev_events s @ [key_down n, syn]
              \<and> cur_key s1 = Some (EventCode n)
              \<and> listen_touchpad_event c e' (BTN_TOOL t' 0) s1 = Inr s2
              \<and> udev_events s2 = udev_events s @ [key_down n, syn, key_up n, syn]
              \<and> cur_key s2 = None"
    using contact_held[OF assms, of c x y n e t e' t'] by simp
qed

text \<open>
  The claim C1 as it is written fails in its exception: with key repetition
  configured, a contact-down on the key 7 writes the press and a synchronization
  marker, and no release.
\<close>

theorem repetition_contact_down_counterexample:
  "key_repetitions repetition_layout
   \<and> listen_touchpad_events repetition_layout
       [(example_env 0, ABS_MT_POSITION_X 10), (example_env 0, ABS_MT_POSITION_Y 10),
        (example_env 0, BTN_TOOL FINGER 1)] active_state
     = Inr held_key_state
   \<and> udev_events held_key_state = [key_down ''KEY_KP7'', syn]
   \<and> key_up ''KEY_KP7'' \<notin> set (udev_events held_key_state)"
  by code_simp

lemma moved_to_other_key:
  assumes "one_touch_key_rotation c" and "numlock s" and "slots_ok s"
    and "cur_key s = Some (EventCode a)" and "ecodes c a \<noteq> 0"
    and "a \<noteq> ''KEY_CALC''" and "a \<noteq> ''KEY_NUMLOCK''"
    and "get_touched_key c (cur_x s) (cur_y s) = Inr (Some (EventCode b))"
    and "b \<noteq> a" and "ecodes c b \<noteq> 0"
  shows "\<exists>s'. is_not_finger_moved_to_another_key c s = Inr s'
         \<and> udev_events s' = udev_events s @ [key_up a, syn, key_down b, syn]
         \<and> cur_key s' = Some (EventCode b)"
proof -
  let ?u = "(send_events [key_up a, syn] s)\<lparr> abs_mt_slot_numpad_key :=
          (abs_mt_slot_numpad_key s)[abs_mt_slot_value s := Some (EventCode b)] \<rparr>"
  have u: "unpressed_numpad_key c (Some (EventCode b)) s = ?u"
    using assms(4,5) by (intro unpressed_event_key(2)) simp_all
  have kb: "cur_key ?u = Some (EventCode b)"
    using assms(3) by (simp add: send_events_def slots_ok_def)
  have "is_not_finger_moved_to_another_key c s = replaced_numpad_key c (EventCode b) s"
    using assms by (simp add: is_not_finger_moved_to_another_key_def)
  also have "\<dots> = pressed_numpad_key c ?u"
    using u by (simp add: replaced_numpad_key_def)
  also have "\<dots> = Inr (send_events [key_down b, syn] ?u)"
    using kb assms(10) by (rule pressed_event_key)
  finally have "is_not_finger_moved_to_another_key c s = Inr (send_events [key_down b, syn] ?u)" .
  moreover have "udev_events (send_events [key_down b, syn] ?u)
      = udev_events s @ [key_up a, syn, key_down b, syn]"
    by (simp add: send_events_def)
  moreover have "cur_key (send_events [key_down b, syn] ?u) = Some (EventCode b)"
    using kb by (simp add: send_events_def)
  ultimately show ?thesis by blast
qed

lemma never_both_down:
  assumes "b \<notin> d" and "b \<noteq> a" and "prefix pre [key_up a, syn, key_down b, syn]"
  shows "\<not> (a \<in> keys_down d pre \<and> b \<in> keys_down d pre)"
  using assms by (auto simp add: prefix_Cons)

text \<open>
  C5.  One-touch key rotation is on, the numpad is on, and the current slot holds the
  key code \<open>a\<close> (a direct key code, not one of the two pseudo-keys of the icons).  A
  move along either axis to a cell that holds another key code \<open>b\<close> writes the release
  of \<open>a\<close>, a synchronization marker, the press of \<open>b\<close> and a synchronization marker,
  in this order, and assigns \<open>b\<close> to the slot; after no prefix of what is written are
  \<open>a\<close> and \<open>b\<close> both down, \<open>b\<close> not being down before.
\<close>

theorem rotation_releases_before_pressing:
  assumes "one_touch_key_rotation c" and "numlock s" and "slots_ok s"
    and "\<not> unsupported_abs_mt_slot s"
    and "cur_key s = Some (EventCode a)" and "ecodes c a \<noteq> 0"
    and "a \<noteq> ''KEY_CALC''" and "a \<noteq> ''KEY_NUMLOCK''"
    and "b \<noteq> a" and "ecodes c b \<noteq> 0"
  shows "(get_touched_key c x (cur_y s) = Inr (Some (EventCode b)) \<longrightarrow>
           (\<exists>s'. listen_touchpad_event c e (ABS_MT_POSITION_X x) s = Inr s'
              \<and> udev_events s' = udev_events s @ [key_up a, syn, key_down b, syn]
              \<and> cur_key s' = Some (EventCode b)))
       \<and> (get_touched_key c (cur_x s) y = Inr (Some (EventCode b)) \<longrightarrow>
           (\<exists>s'. listen_touchpad_event c e (ABS_MT_POSITION_Y y) s = Inr s'
              \<and> udev_events s' = udev_events s @ [key_up a, syn, key_down b, syn]
              \<and> cur_key s' = Some (EventCode b)))
       \<and> (\<forall>d pre. b \<notin> d \<and> prefix pre [key_up a, syn, key_down b, syn] \<longrightarrow>
             \<not> (a \<in> keys_down d pre \<and> b \<in> keys_down d pre))"
proof (intro conjI impI allI)
  assume g: "get_touched_key c x (cur_y s) = Inr (Some (EventCode b))"
  let ?m = "s\<lparr> last_event_time := now e,
               abs_mt_slot_x_values := (abs_mt_slot_x_values s)[abs_mt_slot_value s := x] \<rparr>"
  have m: "numlock ?m" "slots_ok ?m" "cur_key ?m = Some (EventCode a)"
      "cur_x ?m = x" "cur_y ?m = cur_y s" "udev_events ?m = udev_events s"
    using assms(2,3,5) by (simp_all add: slots_ok_def)
  have "listen_touchpad_event c e (ABS_MT_POSITION_X x) s = is_not_finger_moved_to_another_key c ?m"
    using assms(4) by (simp add: listen_touchpad_event_def)
  moreover have "\<exists>s'. is_not_finger_moved_to_another_key c ?m = Inr s'
         \<and> udev_events s' = udev_events ?m @ [key_up a, syn, key_down b, syn]
         \<and> cur_key s' = Some (EventCode b)"
    using assms(1) m(1,2,3) assms(6,7,8) _ assms(9,10)
    by (rule moved_to_other_key) (use assms(3) g in \<open>simp add: slots_ok_def\<close>)
  ultimately show "\<exists>s'. listen_touchpad_event c e (ABS_MT_POSITION_X x) s = Inr s'
              \<and> udev_events s' = udev_events s @ [key_up a, syn, key_down b, syn]
              \<and> cur_key s' = Some (EventCode b)"
    using m(6) by simp
next
  assume g: "get_touched_key c (cur_x s) y = Inr (Some (EventCode b))"
  let ?m = "s\<lparr> last_event_time := now e,
               abs_mt_slot_y_values := (abs_mt_slot_y_values s)[abs_mt_slot_value s := y] \<rparr>"
  have m: "numlock ?m" "slots_ok ?m" "cur_key ?m = Some (EventCode a)"
      "cur_y ?m = y" "cur_x ?m = cur_x s" "udev_events ?m = udev_events s"
    using assms(2,3,5) by (simp_all add: slots_ok_def)
  have "listen_touchpad_event c e (ABS_MT_POSITION_Y y) s = is_not_finger_moved_to_another_key c ?m"
    using assms(4) by (simp add: listen_touchpad_event_def)
  moreover have "\<exists>s'. is_not_finger_moved_to_another_key c ?m = Inr s'
         \<and> udev_events s' = udev_events ?m @ [key_up a, syn, key_down b, syn]
         \<and> cur_key s' = Some (EventCode b)"
    using assms(1) m(1,2,3) assms(6,7,8) _ assms(9,10)
    by (rule moved_to_other_key) (use assms(3) g in \<open>simp add: slots_ok_def\<close>)
  ultimately show "\<exists>s'. listen_touchpad_event c e (ABS_MT_POSITION_Y y) s = Inr s'
              \<and> udev_events s' = udev_events s @ [key_up a, syn, key_down b, syn]
              \<and> cur_key s' = Some (EventCode b)"
    using m(6) by simp
next
  fix d pre
  assume "b \<notin> d \<and> prefix pre [key_up a, syn, key_down b, syn]"
  then show "\<not> (a \<in> keys_down d pre \<and> b \<in> keys_down d pre)"
    using never_both_down[of b d a pre] assms(9) by simp
qed

lemma example_positions:
  "on_grid_key example_layout 10 10 ''KEY_KP7''"
  "on_grid_key example_layout 250 250 ''KEY_KP3''"
  "on_grid_key repetition_layout 10 10 ''KEY_KP7''"
  by code_simp+

lemma active_state_idle: "idle_slot active_state"
  by (simp add: idle_slot_def slots_ok_def active_state_def initial_state_def)

theorem contact_pairing_witness:
  "idle_slot active_state \<and> \<not> key_repetitions example_layout
   \<and> on_grid_key example_layout 10 10 ''KEY_KP7'' \<and> on_grid_key example_layout 250 250 ''KEY_KP3''
   \<and> (\<exists>s'. listen_touchpad_events example_layout
              (contact_events
                 [\<lparr> c_env = example_env 0, c_x = 10, c_y = 10, c_key = ''KEY_KP7'', c_value = 1 \<rparr>,
                  \<lparr> c_env = example_env 0, c_x = 10, c_y = 10, c_key = ''KEY_KP7'', c_value = 0 \<rparr>,
                  \<lparr> c_env = example_env 1, c_x = 250, c_y = 250, c_key = ''KEY_KP3'', c_value = 1 \<rparr>])
              active_state = Inr s'
         \<and> cur_key s' = None
         \<and> udev_events s' = [key_down ''KEY_KP7'', syn, key_up ''KEY_KP7'', syn,
                              key_down ''KEY_KP3'', syn, key_up ''KEY_KP3'', syn])
   \<and> key_repetitions repetition_layout \<and> on_grid_key repetition_layout 10 10 ''KEY_KP7''
   \<and> (\<exists>s1 s2. listen_touchpad_events repetition_layout
                 [(example_env 0, ABS_MT_POSITION_X 10), (example_env 0, ABS_MT_POSITION_Y 10),
                  (example_env 0, BTN_TOOL FINGER 1)] active_state = Inr s1
         \<and> udev_events s1 = [key_down ''KEY_KP7'', syn]
         \<and> listen_touchpad_event repetition_layout (example_env 1) (BTN_TOOL FINGER 0) s1 = Inr s2
         \<and> udev_events s2 = [key_down ''KEY_KP7'', syn, key_up ''KEY_KP7'', syn]
         \<and> cur_key s2 = None)"
proof -
  have start: "udev_events active_state = []"
    by (simp add: active_state_def initial_state_def)
  have modes: "\<not> key_repetitions example_layout" "key_repetitions repetition_layout"
    by (simp_all add: example_layout_def repetition_layout_def)
  show ?thesis
    using contact_pairing [OF active_state_idle,
            of example_layout
               "[\<lparr> c_env = example_env 0, c_x = 10, c_y = 10, c_key = ''KEY_KP7'', c_value = 1 \<rparr>,
                 \<lparr> c_env = example_env 0, c_x = 10, c_y = 10, c_key = ''KEY_KP7'', c_value = 0 \<rparr>,
                 \<lparr> c_env = example_env 1, c_x = 250, c_y = 250, c_key = ''KEY_KP3'', c_value = 1 \<rparr>]"]
          contact_pairing [OF active_state_idle,
            of repetition_layout "[]" 10 10 "''KEY_KP7''" "example_env 0" FINGER "example_env 1" FINGER]
          active_state_idle example_positions modes start
    by (simp del: contact_events.simps listen_touchpad_events.simps) blast
qed

theorem rotation_releases_before_pressing_witness:
  "one_touch_key_rotation rotation_layout \<and> numlock held_key_state \<and> slots_ok held_key_state
   \<and> \<not> unsupported_abs_mt_slot held_key_state
   \<and> cur_key held_key_state = Some (EventCode ''KEY_KP7'')
   \<and> get_touched_key rotation_layout 150 (cur_y held_key_state) = Inr (Some (EventCode ''KEY_KP8''))
   \<and> (\<exists>s'. listen_touchpad_event rotation_layout (example_env 1) (ABS_MT_POSITION_X 150)
              held_key_state = Inr s'
         \<and> udev_events s' = [key_down ''KEY_KP7'', syn, key_up ''KEY_KP7'', syn,
                              key_down ''KEY_KP8'', syn]
         \<and> cur_key s' = Some (EventCode ''KEY_KP8''))"
proof -
  have h: "one_touch_key_rotation rotation_layout" "numlock held_key_state"
      "slots_ok held_key_state" "\<not> unsupported_abs_mt_slot held_key_state"
      "cur_key held_key_state = Some (EventCode ''KEY_KP7'')"
      "ecodes rotation_layout ''KEY_KP7'' \<noteq> 0"
      "''KEY_KP7'' \<noteq> ''KEY_CALC''" "''KEY_KP7'' \<noteq> ''KEY_NUMLOCK''"
      "''KEY_KP8'' \<noteq> ''KEY_KP7''" "ecodes rotation_layout ''KEY_KP8'' \<noteq> 0"
    by (simp_all add: rotation_layout_def example_layout_def held_key_state_def
        active_state_def initial_state_def slots_ok_def linux_ecodes_def)
  have y: "cur_y held_key_state = 10" "udev_events held_key_state = [key_down ''KEY_KP7'', syn]"
    by (simp_all add: held_key_state_def active_state_def initial_state_def)
  show ?thesis
    using rotation_releases_before_pressing [OF h, of 150 "example_env 1"]
      h(1-5) y example_get_touched_key(6)
    by simp
qed


lemma disabled_reported: "\<not> fst (is_device_enabled disabled_env s)"
  by (simp add: is_device_enabled_def disabled_env_def example_env_def Let_def strip_def
      py_isspace_def sublist_code)

theorem numlock_hold_gated_by_touchpad_state_witness:
  "\<not> unsupported_abs_mt_slot icon_hold_state
   \<and> is_pressed_touchpad_top_right_icon example_layout icon_hold_state
   \<and> top_right_icon_touch_start_time icon_hold_state \<noteq> 0
   \<and> cur_key icon_hold_state = Some KEY_NUMLOCK
   \<and> now disabled_env - top_right_icon_touch_start_time icon_hold_state
        > top_right_icon_activation_time (icon example_layout)
   \<and> touchpad_disables_numpad example_layout
   \<and> \<not> fst (is_device_enabled disabled_env icon_hold_state)
   \<and> (\<exists>s'. listen_touchpad_event example_layout disabled_env (MSC_TIMESTAMP 0) icon_hold_state
              = Inr s'
         \<and> top_right_icon_touch_start_time s' = 0 \<and> numlock s' = numlock icon_hold_state
         \<and> bus_commands s' = bus_commands icon_hold_state)"
proof -
  have h: "\<not> unsupported_abs_mt_slot icon_hold_state"
      "is_pressed_touchpad_top_right_icon example_layout icon_hold_state"
      "top_right_icon_touch_start_time icon_hold_state \<noteq> 0"
      "cur_key icon_hold_state = Some KEY_NUMLOCK"
      "now disabled_env - top_right_icon_touch_start_time icon_hold_state
        > top_right_icon_activation_time (icon example_layout)"
    by (simp_all add: icon_hold_state_def icon_touch_state_def active_state_def
        initial_state_def is_pressed_touchpad_top_right_icon_def example_layout_def
        example_geometry_def example_icons_def disabled_env_def example_env_def)
  have f: "touchpad_disables_numpad example_layout"
    by (simp add: example_layout_def)
  show ?thesis
    using numlock_hold_gated_by_touchpad_state [OF h, of 0] h f
      disabled_reported[of icon_hold_state]
    by auto
qed

end
